theory Spec2Isabelle
  imports Main
begin

section \<open>Values of the JavaScript runtime\<close>

text \<open>
  A rejected promise and a thrown exception are both an error value; the constructor
  records which JavaScript error class was raised and its message.
\<close>

datatype js_error = Error string | RangeError string | TypeError string

fun message :: "js_error \<Rightarrow> string" where
  "message (Error m) = m"
| "message (RangeError m) = m"
| "message (TypeError m) = m"

text \<open>
  The object returned by Node's \<open>url.parse\<close>: every field is a string or null, and
  \<open>delete components.host\<close> leaves the field absent, which \<open>url.format\<close> reads like null.
\<close>

record url =
  protocol :: "string option"
  slashes :: "bool option"
  auth :: "string option"
  host :: "string option"
  port :: "string option"
  hostname :: "string option"
  hash :: "string option"
  search :: "string option"
  query :: "string option"
  pathname :: "string option"
  path :: "string option"
  href :: "string"

text \<open>
  Decimal rendering of a port number, \<open>packagerPort.toString()\<close>. The port is a natural
  number; \<open>digit\<close> is applied to numbers below 10 only.
\<close>

definition digit :: "nat \<Rightarrow> char" where
  "digit d = ''0123456789'' ! d"

function toString :: "nat \<Rightarrow> string" where
  "toString n = (if n < 10 then [digit n] else toString (n div 10) @ [digit (n mod 10)])"
  by pat_completeness auto
termination
  by (relation "measure id") auto

declare toString.simps [simp del]

section \<open>HTTP: \<open>src/common/node/request.ts\<close>\<close>

text \<open>
  \<open>http.get\<close> receives either the URL string itself or, when a header is attached, the
  parsed URL spread into an options object with a \<open>headers\<close> field.
\<close>

datatype http_request =
    GetString string
  | GetOptions url "(string \<times> string) list"

fun request_headers :: "http_request \<Rightarrow> (string \<times> string) list" where
  "request_headers (GetString u) = []"
| "request_headers (GetOptions u hs) = hs"

text \<open>
  What comes back: the \<open>error\<close> event of the request, or a response whose body is the
  concatenation of its \<open>data\<close> chunks. \<open>headers\<close> is None where \<open>res.headers\<close> is falsy.
\<close>

record response =
  statusCode :: nat
  headers :: "(string \<times> string) list option"
  content :: string

datatype http_outcome = NetworkError js_error | Response response

type_synonym http = "http_request \<Rightarrow> http_outcome"

record ScriptResponse =
  etag :: "string option"
  code :: nat
  body :: string

text \<open>JavaScript truthiness of a \<open>string | null | undefined\<close>: the empty string is falsy.\<close>

fun truthy :: "string option \<Rightarrow> bool" where
  "truthy None = False"
| "truthy (Some s) = (s \<noteq> [])"

text \<open>
  \<open>Request.requestWithEtag\<close>. The first component is the argument handed to \<open>http.get\<close>,
  the second the settled promise: rejected with the network error, rejected with
  \<open>new Error(body)\<close> for a status other than 200 and 304, resolved otherwise.
  \<open>url.parse\<close> belongs to the runtime and is a parameter.
\<close>

fun etagRequest :: "(string \<Rightarrow> url) \<Rightarrow> string \<Rightarrow> string option \<Rightarrow> http_request" where
  "etagRequest parse scriptUrl (Some e) =
     (if truthy (Some e) then GetOptions (parse scriptUrl) [(''If-None-Match'', e)]
      else GetString scriptUrl)"
| "etagRequest parse scriptUrl None = GetString scriptUrl"

text \<open>\<open>res.headers ? res.headers.etag : null\<close>\<close>

definition headers_etag :: "response \<Rightarrow> string option" where
  "headers_etag res = (case headers res of None \<Rightarrow> None | Some hs \<Rightarrow> map_of hs ''etag'')"

definition etagResult :: "http_outcome \<Rightarrow> js_error + ScriptResponse" where
  "etagResult out =
     (case out of
        NetworkError err \<Rightarrow> Inl err
      | Response res \<Rightarrow>
          if statusCode res \<noteq> 200 \<and> statusCode res \<noteq> 304 then Inl (Error (content res))
          else Inr \<lparr> etag = headers_etag res, code = statusCode res, body = content res \<rparr>)"

definition requestWithEtag ::
  "(string \<Rightarrow> url) \<Rightarrow> http \<Rightarrow> string \<Rightarrow> string option
     \<Rightarrow> http_request \<times> (js_error + ScriptResponse)" where
  "requestWithEtag parse srv scriptUrl e =
     (let request = etagRequest parse scriptUrl e
      in (request, etagResult (srv request)))"

text \<open>\<open>Request.request\<close>: a plain GET of the URL string.\<close>

definition request :: "http \<Rightarrow> string \<Rightarrow> bool \<Rightarrow> http_request \<times> (js_error + string)" where
  "request srv scriptUrl expectStatusOK =
     (GetString scriptUrl,
      case srv (GetString scriptUrl) of
        NetworkError err \<Rightarrow> Inl err
      | Response res \<Rightarrow>
          if expectStatusOK \<and> statusCode res \<noteq> 200 then Inl (Error (content res))
          else Inr (content res))"

section \<open>The script importer: \<open>src/debugger/scriptImporter.ts\<close>\<close>

text \<open>
  What the importer calls and the sources at hand do not contain: Node's \<open>url\<close> and
  \<open>path\<close> modules, and the classes \<open>SourceMapUtil\<close> (\<open>debugger/sourceMap\<close>) and
  \<open>Packager\<close> (\<open>common/packager\<close>). They are parameters of the model. A rejected
  \<open>isPackagerRunning\<close> promise is \<open>Inl\<close>.
\<close>

record env =
  url_parse :: "string \<Rightarrow> url"
  url_format :: "url \<Rightarrow> string"
  path_join :: "string \<Rightarrow> string \<Rightarrow> string"
  path_basename :: "string \<Rightarrow> string"
  getSourceMapURL :: "url \<Rightarrow> string \<Rightarrow> url option"
  updateScriptPaths :: "string \<Rightarrow> url \<Rightarrow> string"
  updateSourceMapFile :: "string \<Rightarrow> string \<Rightarrow> string \<Rightarrow> string"
  isPackagerRunning :: "string \<Rightarrow> js_error + bool"
  getHostForPort :: "nat \<Rightarrow> string"

text \<open>
  Everything outside the importer object that a call reads or changes: the files on disk,
  the \<open>writeFile\<close> calls and the \<open>http.get\<close> calls made so far, in order, and the
  \<open>writeAppSourceMap\<close> promises nobody waits for (source map URL and script URL).
\<close>

record world =
  files :: "string \<rightharpoonup> string"
  written :: "(string \<times> string) list"
  requested :: "http_request list"
  detached :: "(url \<times> url) list"

text \<open>
  Modelled from the spec: the class \<open>FileSystem\<close> of \<open>common/node/fileSystem\<close>, the
  file-system writer collaborator (ensure/write file at path). A write stores the content
  at the path and succeeds.
\<close>

definition existsSync :: "world \<Rightarrow> string \<Rightarrow> bool" where
  "existsSync w p = (files w p \<noteq> None)"

definition writeFile :: "world \<Rightarrow> string \<Rightarrow> string \<Rightarrow> world" where
  "writeFile w p c = w\<lparr> files := (files w)(p \<mapsto> c), written := written w @ [(p, c)] \<rparr>"

definition http_get :: "world \<Rightarrow> http_request \<Rightarrow> world" where
  "http_get w r = w\<lparr> requested := requested w @ [r] \<rparr>"

record ScriptImporter =
  packagerPort :: nat
  appScriptEtag :: "string option"
  sourcesStoragePath :: string

definition new_ScriptImporter :: "nat \<Rightarrow> string \<Rightarrow> ScriptImporter" where
  "new_ScriptImporter p storage =
     \<lparr> packagerPort = p, appScriptEtag = None, sourcesStoragePath = storage \<rparr>"

definition DEBUGGER_WORKER_FILE_BASENAME :: string where
  "DEBUGGER_WORKER_FILE_BASENAME = ''debuggerWorker''"

definition DEBUGGER_WORKER_FILENAME :: string where
  "DEBUGGER_WORKER_FILENAME = DEBUGGER_WORKER_FILE_BASENAME @ ''.js''"

definition overridePackagerPort :: "env \<Rightarrow> ScriptImporter \<Rightarrow> string \<Rightarrow> string" where
  "overridePackagerPort e imp urlToOverride =
     (let components = url_parse e urlToOverride
      in url_format e (components\<lparr> port := Some (toString (packagerPort imp)), host := None \<rparr>))"

text \<open>The first lines of \<open>downloadAppScript\<close>: the URL that is fetched.\<close>

definition overriddenScriptUrlString :: "env \<Rightarrow> ScriptImporter \<Rightarrow> string \<Rightarrow> string" where
  "overriddenScriptUrlString e imp scriptUrlString =
     (let parsedScriptUrl = url_parse e scriptUrlString
      in if hostname parsedScriptUrl = Some ''localhost''
         then overridePackagerPort e imp scriptUrlString else scriptUrlString)"

text \<open>
  The 200 branch of \<open>downloadAppScript\<close>: the source map reference in the body, the
  \<open>writeAppSourceMap\<close> call that is started and left alone (its request is issued at
  once, its continuation is recorded in \<open>detached\<close>), then the write of the script.
\<close>

definition storeAppScript ::
  "env \<Rightarrow> url \<Rightarrow> string \<Rightarrow> string \<Rightarrow> world \<Rightarrow> world" where
  "storeAppScript e scriptUrl scriptFilePath respBody w =
     (case getSourceMapURL e scriptUrl respBody of
        None \<Rightarrow> writeFile w scriptFilePath respBody
      | Some sourceMappingUrl \<Rightarrow>
          let scriptBody = updateScriptPaths e respBody sourceMappingUrl;
              w1 = http_get w (GetString (href sourceMappingUrl));
              w2 = w1\<lparr> detached := detached w1 @ [(sourceMappingUrl, scriptUrl)] \<rparr>
          in writeFile w2 scriptFilePath scriptBody)"

text \<open>
  \<open>downloadAppScript\<close>. \<open>path.basename\<close> of a null pathname throws before anything else
  happens. The result is the settled promise, the importer and the world after the call.
\<close>

definition downloadAppScript ::
  "env \<Rightarrow> http \<Rightarrow> string \<Rightarrow> ScriptImporter \<Rightarrow> world
     \<Rightarrow> (js_error + string) \<times> ScriptImporter \<times> world" where
  "downloadAppScript e srv scriptUrlString imp w =
     (let overridden = overriddenScriptUrlString e imp scriptUrlString;
          scriptUrl = url_parse e overridden
      in case pathname scriptUrl of
           None \<Rightarrow> (Inl (TypeError ''The path argument must be of type string''), imp, w)
         | Some pn \<Rightarrow>
             let scriptFilePath = path_join e (sourcesStoragePath imp) (path_basename e pn);
                 imp1 = (if \<not> existsSync w scriptFilePath
                         then imp\<lparr> appScriptEtag := None \<rparr> else imp);
                 sent = requestWithEtag (url_parse e) srv overridden (appScriptEtag imp1);
                 w1 = http_get w (fst sent)
             in (case snd sent of
                   Inl err \<Rightarrow> (Inl err, imp1, w1)
                 | Inr resp \<Rightarrow>
                     let imp2 = imp1\<lparr> appScriptEtag := etag resp \<rparr>
                     in if code resp = 304 then (Inr scriptFilePath, imp2, w1)
                        else (Inr scriptFilePath, imp2,
                              storeAppScript e scriptUrl scriptFilePath (body resp) w1)))"

text \<open>
  \<open>writeAppSourceMap\<close>, from the answer to its request on: the source map is rewritten
  and written beside the bundle. \<open>downloadAppScript\<close> starts it and does not wait for it.
\<close>

definition writeAppSourceMap ::
  "env \<Rightarrow> http \<Rightarrow> ScriptImporter \<Rightarrow> url \<Rightarrow> url \<Rightarrow> world \<Rightarrow> (js_error + unit) \<times> world" where
  "writeAppSourceMap e srv imp sourceMapUrl scriptUrl w =
     (case snd (request srv (href sourceMapUrl) True) of
        Inl err \<Rightarrow> (Inl err, w)
      | Inr sourceMapBody \<Rightarrow>
          (case (pathname sourceMapUrl, pathname scriptUrl) of
             (Some mpn, Some spn) \<Rightarrow>
               let sourceMappingLocalPath =
                     path_join e (sourcesStoragePath imp) (path_basename e mpn);
                   scriptFileRelativePath = path_basename e spn;
                   updatedContent = updateSourceMapFile e sourceMapBody scriptFileRelativePath
                                      (sourcesStoragePath imp)
               in (Inr (), writeFile w sourceMappingLocalPath updatedContent)
           | _ \<Rightarrow> (Inl (TypeError ''The path argument must be of type string''), w)))"

text \<open>The message of the \<open>RangeError\<close> that \<open>downloadDebuggerWorker\<close> throws.\<close>

definition cannotAttach :: "nat \<Rightarrow> string" where
  "cannotAttach p =
     ''Cannot attach to packager. Are you sure there is a packager and it is running in the port ''
     @ toString p
     @ ''? If your packager is configured to run in another port make sure to add that to the setting.json.''"

definition downloadDebuggerWorker ::
  "env \<Rightarrow> http \<Rightarrow> ScriptImporter \<Rightarrow> world \<Rightarrow> (js_error + string) \<times> world" where
  "downloadDebuggerWorker e srv imp w =
     (case isPackagerRunning e (getHostForPort e (packagerPort imp)) of
        Inl err \<Rightarrow> (Inl err, w)
      | Inr running \<Rightarrow>
          if \<not> running then (Inl (RangeError (cannotAttach (packagerPort imp))), w)
          else
            let debuggerWorkerURL =
                  ''http://'' @ getHostForPort e (packagerPort imp) @ ''/'' @ DEBUGGER_WORKER_FILENAME;
                sent = request srv debuggerWorkerURL True
            in (snd sent, http_get w (fst sent)))"

section \<open>The sandbox worker and the connection manager\<close>

text \<open>
  The classes \<open>ForkedAppWorker\<close> (the spec's SandboxWorker) and
  \<open>MultipleLifetimesAppWorker\<close> (the spec's ConnectionManager) of
  \<open>src/debugger/forkedAppWorker.ts\<close> and \<open>src/debugger/appWorker.ts\<close> are not among
  the sources; only their tests are. This section follows sections 4.1, 4.2 and 5 of
  the specification.
\<close>

text \<open>
  Modelled from the spec: the WireMessage of section 3, which \<open>ForkedAppWorker\<close> and
  \<open>MultipleLifetimesAppWorker\<close> exchange: a JSON object, its fields in order, with at least
  \<open>method\<close> and optionally \<open>id\<close> and \<open>url\<close>.
\<close>

datatype jvalue = JString string | JNumber int | JBool bool | JNull

type_synonym wire_message = "(string \<times> jvalue) list"

definition field :: "wire_message \<Rightarrow> string \<Rightarrow> jvalue option" where
  "field m k = map_of m k"

text \<open>The object spread \<open>{...msg, url: v}\<close>: the field keeps its place, or is added last.\<close>

fun with_field :: "wire_message \<Rightarrow> string \<Rightarrow> jvalue \<Rightarrow> wire_message" where
  "with_field [] k v = [(k, v)]"
| "with_field ((k', v') # m) k v = (if k' = k then (k, v) # m else (k', v') # with_field m k v)"

subsection \<open>SandboxWorker.postMessage\<close>

text \<open>
  Modelled from the spec: the SandboxWorker instance of sections 3 and 4.2 (class
  \<open>ForkedAppWorker\<close>), as far as \<open>postMessage\<close> uses it: the proxy address and port it
  was constructed with, and its script importer.
\<close>

record SandboxWorker =
  packagerAddress :: string
  workerPort :: nat
  scriptImporter :: ScriptImporter

text \<open>
  Modelled from the spec: the URL rewriting of \<open>SandboxWorker.postMessage\<close> (class
  \<open>ForkedAppWorker\<close>), "rewritten to the configured proxy address and port": the host of
  the bundle URL becomes \<open>address:port\<close>.
\<close>

definition toPackagerUrl :: "env \<Rightarrow> SandboxWorker \<Rightarrow> string \<Rightarrow> string" where
  "toPackagerUrl e wk u =
     url_format e ((url_parse e u)\<lparr> host := Some (packagerAddress wk @ '':'' @ toString (workerPort wk)) \<rparr>)"

text \<open>
  Modelled from the spec: what a \<open>postMessage\<close> call of \<open>ForkedAppWorker\<close> has done
  (section 4.2): the settled promise (the message forwarded to
  the child, or the error surfaced to the caller), the messages sent to the child, the
  arguments of the \<open>downloadAppScript\<close> calls, and the worker and world afterwards.
\<close>

record posted =
  outcome :: "js_error + wire_message"
  forwarded :: "wire_message list"
  downloads :: "string list"
  worker_after :: SandboxWorker
  world_after :: world

text \<open>
  Modelled from the spec: \<open>SandboxWorker.postMessage\<close> (class \<open>ForkedAppWorker\<close>, section
  4.2). An \<open>executeApplicationScript\<close> message has its bundle resolved through the
  importer and its \<open>url\<close> replaced by the local file path, all other fields unchanged,
  and is then forwarded; a failed download fails the call and forwards nothing; any other
  message is forwarded unchanged. A message without a string \<open>url\<close> fails the call.
\<close>

definition postMessage :: "env \<Rightarrow> http \<Rightarrow> SandboxWorker \<Rightarrow> wire_message \<Rightarrow> world \<Rightarrow> posted" where
  "postMessage e srv wk msg w =
     (if field msg ''method'' = Some (JString ''executeApplicationScript'') then
        (case field msg ''url'' of
           Some (JString u) \<Rightarrow>
             (case downloadAppScript e srv (toPackagerUrl e wk u) (scriptImporter wk) w of
                (Inl err, imp', w') \<Rightarrow>
                  \<lparr> outcome = Inl err, forwarded = [], downloads = [toPackagerUrl e wk u],
                    worker_after = wk\<lparr> scriptImporter := imp' \<rparr>, world_after = w' \<rparr>
              | (Inr localPath, imp', w') \<Rightarrow>
                  \<lparr> outcome = Inr (with_field msg ''url'' (JString localPath)),
                    forwarded = [with_field msg ''url'' (JString localPath)],
                    downloads = [toPackagerUrl e wk u],
                    worker_after = wk\<lparr> scriptImporter := imp' \<rparr>, world_after = w' \<rparr>)
         | _ \<Rightarrow>
             \<lparr> outcome = Inl (Error ''executeApplicationScript without a url''), forwarded = [],
               downloads = [], worker_after = wk, world_after = w \<rparr>)
      else \<lparr> outcome = Inr msg, forwarded = [msg], downloads = [],
             worker_after = wk, world_after = w \<rparr>)"

subsection \<open>ConnectionManager\<close>

text \<open>
  Modelled from the spec: the states of the Connection that \<open>MultipleLifetimesAppWorker\<close>
  owns (section 3).
\<close>

datatype connection = Disconnected | Connecting | Connected | Reconnecting

text \<open>
  Modelled from the spec: what reaches the \<open>ConnectionManager\<close> (sections 4.1 and 6): calls of \<open>start()\<close> and \<open>stop()\<close>, the socket events (a
  message is the parsed text, None for malformed JSON; a close carries its reason text),
  the settling of the promise returned by \<open>start()\<close> of worker \<open>k\<close>, and the passing of
  \<open>d\<close> milliseconds.
\<close>

datatype cm_event =
    Start
  | Stop
  | SocketOpen
  | SocketError
  | SocketMessage "wire_message option"
  | SocketClose string
  | WorkerStarted nat
  | Elapse nat

text \<open>
  Modelled from the spec: what the \<open>ConnectionManager\<close> does, as seen from outside
  (section 4.1): socket operations, worker operations, timer operations.
\<close>

datatype cm_action =
    StartFailed js_error
  | SocketConstructed string
  | SocketSend wire_message
  | SocketClosed
  | MalformedLogged
  | Discarded wire_message
  | WorkerCreated nat
  | WorkerStart nat
  | WorkerStop nat
  | WorkerPostMessage nat wire_message
  | ReconnectScheduled nat
  | ReconnectCancelled
  | Reconnect nat

text \<open>
  Modelled from the spec: the configuration of the \<open>ConnectionManager\<close> (sections 4.1
  and 6): proxy address and port, the marker that a close reason carries when
  another debugger is attached, and the proxy-reachability collaborator
  (\<open>isRunning(host) -> bool\<close>), asked at a time.
\<close>

record cm_config =
  address :: string
  proxyPort :: nat
  anotherDebugger :: string
  isRunning :: "nat \<Rightarrow> bool"

text \<open>
  Modelled from the spec: the Connection of section 3, owned by the
  \<open>ConnectionManager\<close>: its state, the active worker (at most one), the pending
  reconnect timer (its deadline), and besides the clock, the next worker to create and
  the requests whose worker has not finished starting.
\<close>

record cm_state =
  conn :: connection
  worker :: "nat option"
  timer :: "nat option"
  now :: nat
  next_worker :: nat
  awaiting :: "(nat \<times> wire_message) list"

text \<open>
  Modelled from the spec: the \<open>ConnectionManager\<close> as constructed: disconnected, no worker,
  no timer.
\<close>

definition cm_init :: cm_state where
  "cm_init = \<lparr> conn = Disconnected, worker = None, timer = None, now = 0,
               next_worker = 0, awaiting = [] \<rparr>"

text \<open>
  Modelled from the spec: the \<open>ConnectionManager\<close> holds a socket handle while it is
  connecting or connected (section 3).
\<close>

definition has_socket :: "cm_state \<Rightarrow> bool" where
  "has_socket s = (conn s = Connecting \<or> conn s = Connected)"

text \<open>Modelled from the spec: the fixed reconnect delay of \<open>ConnectionManager\<close>, 100 ms.\<close>

definition reconnectDelay :: nat where
  "reconnectDelay = 100"

text \<open>
  Modelled from the spec: the test of the close handler of \<open>ConnectionManager\<close>, "the close
  reason text contains the marker".
\<close>

fun contains :: "string \<Rightarrow> string \<Rightarrow> bool" where
  "contains [] marker = (marker = [])"
| "contains (c # cs) marker = (take (length marker) (c # cs) = marker \<or> contains cs marker)"

text \<open>
  Modelled from the spec: the reply of \<open>ConnectionManager\<close> to a \<open>prepareJSRuntime\<close>
  request, \<open>{"replyID": <original id>}\<close>.
\<close>

definition reply :: "wire_message \<Rightarrow> wire_message" where
  "reply m = (case field m ''id'' of None \<Rightarrow> [] | Some n \<Rightarrow> [(''replyID'', n)])"

text \<open>
  Modelled from the spec: \<open>ConnectionManager.start()\<close> (class
  \<open>MultipleLifetimesAppWorker\<close>, section 4.1). It opens no second socket; it fails with the
  port-specific error and no socket operation when the proxy is not reachable; otherwise
  it opens the socket to \<open>ws://{address}:{port}/debugger-proxy?role=debugger\<close>.
\<close>

definition cm_start :: "cm_config \<Rightarrow> cm_state \<Rightarrow> cm_state \<times> cm_action list" where
  "cm_start cfg s =
     (if has_socket s then (s, [])
      else if \<not> isRunning cfg (now s)
      then (s\<lparr> conn := Disconnected \<rparr>, [StartFailed (RangeError (cannotAttach (proxyPort cfg)))])
      else (s\<lparr> conn := Connecting \<rparr>,
            [SocketConstructed (''ws://'' @ address cfg @ '':'' @ toString (proxyPort cfg)
                                @ ''/debugger-proxy?role=debugger'')]))"

text \<open>
  Modelled from the spec: \<open>ConnectionManager.stop()\<close> (section 4.1): cancels the pending
  reconnect timer, stops the active worker, closes the socket.
\<close>

definition cm_stop :: "cm_state \<Rightarrow> cm_state \<times> cm_action list" where
  "cm_stop s =
     (s\<lparr> conn := Disconnected, worker := None, timer := None \<rparr>,
      (case timer s of None \<Rightarrow> [] | Some t \<Rightarrow> [ReconnectCancelled])
      @ (case worker s of None \<Rightarrow> [] | Some k \<Rightarrow> [WorkerStop k])
      @ (if has_socket s then [SocketClosed] else []))"

text \<open>
  Modelled from the spec: the message handler of \<open>ConnectionManager\<close> (section 4.1).
  \<open>prepareJSRuntime\<close> stops and discards the previous worker, creates a new one and calls
  its \<open>start()\<close>; the reply waits for that promise. Any other message goes to the active
  worker, or is discarded when there is none.
\<close>

definition cm_message :: "cm_state \<Rightarrow> wire_message \<Rightarrow> cm_state \<times> cm_action list" where
  "cm_message s m =
     (if field m ''method'' = Some (JString ''prepareJSRuntime'') then
        (s\<lparr> worker := Some (next_worker s), next_worker := Suc (next_worker s),
            awaiting := awaiting s @ [(next_worker s, m)] \<rparr>,
         (case worker s of None \<Rightarrow> [] | Some old \<Rightarrow> [WorkerStop old])
         @ [WorkerCreated (next_worker s), WorkerStart (next_worker s)])
      else
        (case worker s of
           None \<Rightarrow> (s, [Discarded m])
         | Some k \<Rightarrow> (s, [WorkerPostMessage k m])))"

text \<open>
  Modelled from the spec: the continuation of \<open>ConnectionManager\<close> on the \<open>start()\<close>
  promise of a worker (section 4.1): once it settles, the reply to the request that
  created the worker is sent on the socket.
\<close>

definition cm_started :: "cm_state \<Rightarrow> nat \<Rightarrow> cm_state \<times> cm_action list" where
  "cm_started s k =
     (case map_of (awaiting s) k of
        None \<Rightarrow> (s, [])
      | Some m \<Rightarrow> (s\<lparr> awaiting := filter (\<lambda>a. fst a \<noteq> k) (awaiting s) \<rparr>, [SocketSend (reply m)]))"

text \<open>
  Modelled from the spec: the close handler of \<open>ConnectionManager\<close> (sections 4.1 and 8).
  When the reason says that another debugger is attached the manager does not reconnect:
  nothing is scheduled, and a reconnection still pending from an earlier close is
  dropped, so that no attempt follows such a close. Otherwise one reconnection attempt
  is scheduled after the fixed delay, in the one timer that the manager has.
\<close>

definition cm_close :: "cm_config \<Rightarrow> cm_state \<Rightarrow> string \<Rightarrow> cm_state \<times> cm_action list" where
  "cm_close cfg s reason =
     (if contains reason (anotherDebugger cfg)
      then (s\<lparr> conn := Disconnected, timer := None \<rparr>,
            (case timer s of None \<Rightarrow> [] | Some t \<Rightarrow> [ReconnectCancelled]))
      else (s\<lparr> conn := Reconnecting, timer := Some (now s + reconnectDelay) \<rparr>,
            [ReconnectScheduled (now s + reconnectDelay)]))"

text \<open>
  Modelled from the spec: the reconnect timer of \<open>ConnectionManager\<close> (sections 4.1 and
  5): when its deadline is reached it fires once, and the attempt is a fresh \<open>start()\<close>.
\<close>

definition cm_elapse :: "cm_config \<Rightarrow> cm_state \<Rightarrow> nat \<Rightarrow> cm_state \<times> cm_action list" where
  "cm_elapse cfg s d =
     (case timer s of
        None \<Rightarrow> (s\<lparr> now := now s + d \<rparr>, [])
      | Some t \<Rightarrow>
          if now s + d < t then (s\<lparr> now := now s + d \<rparr>, [])
          else
            let fired = cm_start cfg (s\<lparr> now := max t (now s), timer := None \<rparr>)
            in ((fst fired)\<lparr> now := now s + d \<rparr>, Reconnect (max t (now s)) # snd fired))"

text \<open>
  Modelled from the spec: the event dispatch of \<open>ConnectionManager\<close> (section 4.1 and the
  design notes): the socket handlers exist as long as the socket does.
\<close>

fun cm_step :: "cm_config \<Rightarrow> cm_state \<Rightarrow> cm_event \<Rightarrow> cm_state \<times> cm_action list" where
  "cm_step cfg s Start = cm_start cfg s"
| "cm_step cfg s Stop = cm_stop s"
| "cm_step cfg s SocketOpen =
     (if conn s = Connecting then (s\<lparr> conn := Connected \<rparr>, []) else (s, []))"
| "cm_step cfg s SocketError = (s, [])"
| "cm_step cfg s (SocketMessage None) = (if has_socket s then (s, [MalformedLogged]) else (s, []))"
| "cm_step cfg s (SocketMessage (Some m)) = (if has_socket s then cm_message s m else (s, []))"
| "cm_step cfg s (SocketClose reason) = (if has_socket s then cm_close cfg s reason else (s, []))"
| "cm_step cfg s (WorkerStarted k) = cm_started s k"
| "cm_step cfg s (Elapse d) = cm_elapse cfg s d"

text \<open>
  A run: the state after the events, and its history, one entry per event with the time
  at which the event arrived and what the manager did in response.
\<close>

fun cm_run :: "cm_config \<Rightarrow> cm_state \<Rightarrow> cm_event list \<Rightarrow> cm_state" where
  "cm_run cfg s [] = s"
| "cm_run cfg s (ev # evs) = cm_run cfg (fst (cm_step cfg s ev)) evs"

fun cm_history ::
  "cm_config \<Rightarrow> cm_state \<Rightarrow> cm_event list \<Rightarrow> (nat \<times> cm_event \<times> cm_action list) list" where
  "cm_history cfg s [] = []"
| "cm_history cfg s (ev # evs) =
     (now s, ev, snd (cm_step cfg s ev)) # cm_history cfg (fst (cm_step cfg s ev)) evs"

definition cm_log :: "cm_config \<Rightarrow> cm_state \<Rightarrow> cm_event list \<Rightarrow> cm_action list" where
  "cm_log cfg s evs = concat (map (\<lambda>h. snd (snd h)) (cm_history cfg s evs))"

text \<open>
  The workers alive after a sequence of actions: created and not stopped since.
\<close>

fun lifetime :: "nat list \<Rightarrow> cm_action \<Rightarrow> nat list" where
  "lifetime alive (WorkerCreated k) = alive @ [k]"
| "lifetime alive (WorkerStop k) = removeAll k alive"
| "lifetime alive a = alive"

definition active :: "cm_action list \<Rightarrow> nat list" where
  "active log = foldl lifetime [] log"

section \<open>A reference runtime for the examples\<close>

text \<open>
  The examples run the importer in a concrete environment: Node's legacy \<open>url.parse\<close> and
  \<open>url.format\<close> on plain URLs \<open>scheme://host[:port][/path][?query][#fragment]\<close> (no
  credentials, no escapes, no IPv6 literal), and \<open>path.posix\<close> on simple paths.
\<close>

definition nonempty :: "string \<Rightarrow> string option" where
  "nonempty s = (if s = [] then None else Some s)"

definition node_url_parse :: "string \<Rightarrow> url" where
  "node_url_parse s =
     (let beforeHash = takeWhile (\<lambda>c. c \<noteq> CHR ''#'') s;
          hashPart = dropWhile (\<lambda>c. c \<noteq> CHR ''#'') s;
          beforeQuery = takeWhile (\<lambda>c. c \<noteq> CHR ''?'') beforeHash;
          searchPart = dropWhile (\<lambda>c. c \<noteq> CHR ''?'') beforeHash;
          scheme = takeWhile (\<lambda>c. c \<noteq> CHR '':'') beforeQuery;
          afterScheme = dropWhile (\<lambda>c. c \<noteq> CHR '':'') beforeQuery
      in if take 3 afterScheme = ''://'' then
           let authority = takeWhile (\<lambda>c. c \<noteq> CHR ''/'') (drop 3 afterScheme);
               pathPart = dropWhile (\<lambda>c. c \<noteq> CHR ''/'') (drop 3 afterScheme);
               name = takeWhile (\<lambda>c. c \<noteq> CHR '':'') authority;
               portPart = drop 1 (dropWhile (\<lambda>c. c \<noteq> CHR '':'') authority);
               pn = (if pathPart = [] then ''/'' else pathPart)
           in \<lparr> protocol = Some (scheme @ '':''), slashes = Some True, auth = None,
                host = Some authority, port = nonempty portPart, hostname = Some name,
                hash = nonempty hashPart, search = nonempty searchPart,
                query = nonempty (drop 1 searchPart), pathname = Some pn,
                path = Some (pn @ searchPart), href = scheme @ ''://'' @ authority @ pn @ searchPart @ hashPart \<rparr>
         else
           \<lparr> protocol = None, slashes = None, auth = None, host = None, port = None,
             hostname = None, hash = nonempty hashPart, search = nonempty searchPart,
             query = nonempty (drop 1 searchPart), pathname = nonempty beforeQuery,
             path = nonempty (beforeQuery @ searchPart), href = s \<rparr>)"

definition orEmpty :: "string option \<Rightarrow> string" where
  "orEmpty x = (case x of None \<Rightarrow> [] | Some s \<Rightarrow> s)"

definition slashedProtocol :: "string \<Rightarrow> bool" where
  "slashedProtocol p = (p \<in> set [''http:'', ''https:'', ''ftp:'', ''gopher:'', ''file:'', ''ws:'', ''wss:''])"

definition node_url_format :: "url \<Rightarrow> string" where
  "node_url_format u =
     (let a = (if truthy (auth u) then orEmpty (auth u) @ ''@'' else []);
          p0 = orEmpty (protocol u);
          p = (if p0 \<noteq> [] \<and> last p0 \<noteq> CHR '':'' then p0 @ '':'' else p0);
          h = (if truthy (host u) then a @ orEmpty (host u)
               else if truthy (hostname u)
                    then a @ orEmpty (hostname u)
                         @ (if truthy (port u) then '':'' @ orEmpty (port u) else [])
                    else []);
          withSlashes = ((slashes u = Some True \<or> slashedProtocol p) \<and> (slashes u = Some True \<or> h \<noteq> []));
          pn0 = orEmpty (pathname u);
          pn = (if withSlashes \<and> pn0 \<noteq> [] \<and> hd pn0 \<noteq> CHR ''/'' then ''/'' @ pn0 else pn0);
          h1 = (if withSlashes then ''//'' @ h else h);
          s0 = orEmpty (search u);
          s1 = (if s0 \<noteq> [] \<and> hd s0 \<noteq> CHR ''?'' then ''?'' @ s0 else s0);
          f0 = orEmpty (hash u);
          f1 = (if f0 \<noteq> [] \<and> hd f0 \<noteq> CHR ''#'' then ''#'' @ f0 else f0)
      in p @ h1 @ pn @ s1 @ f1)"

definition posix_basename :: "string \<Rightarrow> string" where
  "posix_basename p =
     rev (takeWhile (\<lambda>c. c \<noteq> CHR ''/'') (dropWhile (\<lambda>c. c = CHR ''/'') (rev p)))"

definition posix_join :: "string \<Rightarrow> string \<Rightarrow> string" where
  "posix_join a b = (if a \<noteq> [] \<and> last a = CHR ''/'' then a @ b else a @ ''/'' @ b)"

text \<open>
  The packager host of a port is \<open>localhost:<port>\<close>; the bundle of the examples refers
  to no source map; the reachability check answers what it is told to.
\<close>

definition node_env :: "bool \<Rightarrow> env" where
  "node_env running =
     \<lparr> url_parse = node_url_parse, url_format = node_url_format,
       path_join = posix_join, path_basename = posix_basename,
       getSourceMapURL = (\<lambda>scriptUrl respBody. None),
       updateScriptPaths = (\<lambda>scriptBody sourceMappingUrl. scriptBody),
       updateSourceMapFile = (\<lambda>sourceMapBody scriptFileRelativePath storage. sourceMapBody),
       isPackagerRunning = (\<lambda>h. Inr running),
       getHostForPort = (\<lambda>p. ''localhost:'' @ toString p) \<rparr>"

text \<open>
  A packager that serves one bundle under one ETag and honours \<open>If-None-Match\<close>.
\<close>

definition packager :: "string \<Rightarrow> string \<Rightarrow> http" where
  "packager tag bundle r =
     (if map_of (request_headers r) ''If-None-Match'' = Some tag
      then Response \<lparr> statusCode = 304, headers = Some [(''etag'', tag)], content = [] \<rparr>
      else Response \<lparr> statusCode = 200, headers = Some [(''etag'', tag)], content = bundle \<rparr>)"

definition empty_world :: world where
  "empty_world = \<lparr> files = Map.empty, written = [], requested = [], detached = [] \<rparr>"

text \<open>
  The importer and the world of the examples once the bundle of \<open>packager ''v1'' ''BODY''\<close>
  has been downloaded to \<open>/tmp/store\<close>.
\<close>

definition cached_importer :: ScriptImporter where
  "cached_importer =
     \<lparr> packagerPort = 8081, appScriptEtag = Some ''v1'', sourcesStoragePath = ''/tmp/store'' \<rparr>"

definition cached_world :: world where
  "cached_world =
     \<lparr> files = [''/tmp/store/index.bundle'' \<mapsto> ''BODY''],
       written = [(''/tmp/store/index.bundle'', ''BODY'')],
       requested = [GetString ''http://localhost:8081/index.bundle''],
       detached = [] \<rparr>"

text \<open>The messages and the configuration of the connection manager's tests.\<close>

definition prepareJSRuntime :: "int \<Rightarrow> wire_message" where
  "prepareJSRuntime n = [(''method'', JString ''prepareJSRuntime''), (''id'', JNumber n)]"

definition test_config :: "bool \<Rightarrow> cm_config" where
  "test_config up =
     \<lparr> address = ''localhost'', proxyPort = 8081,
       anotherDebugger = ''Another debugger is already connected'', isRunning = (\<lambda>t. up) \<rparr>"

text \<open>A packager that answers every request with 304 and no \<open>etag\<close> header.\<close>

definition unchanged_no_etag :: http where
  "unchanged_no_etag r = Response \<lparr> statusCode = 304, headers = Some [], content = [] \<rparr>"

text \<open>A packager that answers every request with 304 and the new ETag \<open>v2\<close>.\<close>

definition unchanged_new_etag :: http where
  "unchanged_new_etag r = Response \<lparr> statusCode = 304, headers = Some [(''etag'', ''v2'')], content = [] \<rparr>"

text \<open>A packager that serves the bootstrap worker script.\<close>

definition worker_script :: http where
  "worker_script r = Response \<lparr> statusCode = 200, headers = None, content = ''onmessage = function () {}'' \<rparr>"


text \<open>The worker and the message of the test "should download script from remote packager".\<close>

definition remote_worker :: SandboxWorker where
  "remote_worker =
     \<lparr> packagerAddress = ''1.2.3.4'', workerPort = 1337,
       scriptImporter = new_ScriptImporter 1337 ''/tmp/store'' \<rparr>"

definition executeApplicationScript :: wire_message where
  "executeApplicationScript =
     [(''method'', JString ''executeApplicationScript''),
      (''url'', JString ''http://localhost:8081/test-url'')]"

section \<open>Auxiliary notions for the proofs\<close>

text \<open>The remembered ETag that goes into the request: none when the cache file is missing.\<close>

definition sentEtag :: "ScriptImporter \<Rightarrow> world \<Rightarrow> string \<Rightarrow> string option" where
  "sentEtag imp w scriptFilePath = (if existsSync w scriptFilePath then appScriptEtag imp else None)"

text \<open>The worker the manager holds, as a list.\<close>

definition held :: "cm_state \<Rightarrow> nat list" where
  "held s = (case worker s of None \<Rightarrow> [] | Some k \<Rightarrow> [k])"

text \<open>What the manager did in the steps in which the \<open>start()\<close> promise of worker \<open>k\<close> settled.\<close>

definition on_started :: "nat \<Rightarrow> (nat \<times> cm_event \<times> cm_action list) list \<Rightarrow> cm_action list" where
  "on_started k h = concat (map (\<lambda>x. if fst (snd x) = WorkerStarted k then snd (snd x) else []) h)"

text \<open>The requests that wait for a worker belong to distinct workers, all created already.\<close>

definition awaiting_ok :: "cm_state \<Rightarrow> bool" where
  "awaiting_ok s = (distinct (map fst (awaiting s)) \<and> (\<forall>a \<in> set (awaiting s). fst a < next_worker s))"




text \<open>The number of pending timers, none or one.\<close>

definition pending :: "cm_state \<Rightarrow> nat" where
  "pending s = (case timer s of None \<Rightarrow> 0 | Some d \<Rightarrow> 1)"

text \<open>The time that passes during a sequence of events.\<close>

fun elapsed :: "cm_event list \<Rightarrow> nat" where
  "elapsed [] = 0"
| "elapsed (Elapse d # evs) = d + elapsed evs"
| "elapsed (ev # evs) = elapsed evs"

section \<open>Lemmas about the importer\<close>

lemmas node_defs = node_env_def node_url_parse_def node_url_format_def posix_join_def
  posix_basename_def nonempty_def orEmpty_def slashedProtocol_def packager_def empty_world_def
  new_ScriptImporter_def toString.simps digit_def

lemmas importer_defs = downloadAppScript_def overriddenScriptUrlString_def overridePackagerPort_def
  requestWithEtag_def etagResult_def headers_etag_def storeAppScript_def writeFile_def
  http_get_def existsSync_def Let_def


lemma requestWithEtag_fst: "fst (requestWithEtag parse srv u e) = etagRequest parse u e"
  by (simp add: requestWithEtag_def Let_def)

lemma requestWithEtag_snd: "snd (requestWithEtag parse srv u e) = etagResult (srv (etagRequest parse u e))"
  by (simp add: requestWithEtag_def Let_def)

lemma etagRequest_None: "etagRequest parse u None = GetString u"
  by simp

lemma overridden_etag_update:
  "overriddenScriptUrlString e (imp\<lparr> appScriptEtag := x \<rparr>) u = overriddenScriptUrlString e imp u"
  by (simp add: overriddenScriptUrlString_def overridePackagerPort_def)

lemma downloadAppScript_null:
  "pathname (url_parse e (overriddenScriptUrlString e imp u)) = None \<Longrightarrow>
   downloadAppScript e srv u imp w = (Inl (TypeError ''The path argument must be of type string''), imp, w)"
  by (simp add: downloadAppScript_def Let_def)

lemma downloadAppScript_unfold:
  assumes "pathname (url_parse e (overriddenScriptUrlString e imp u)) = Some pn"
      and "U = overriddenScriptUrlString e imp u"
      and "P = path_join e (sourcesStoragePath imp) (path_basename e pn)"
      and "req = etagRequest (url_parse e) U (sentEtag imp w P)"
  shows "downloadAppScript e srv u imp w =
     (case etagResult (srv req) of
           Inl err \<Rightarrow> (Inl err, imp\<lparr> appScriptEtag := sentEtag imp w P \<rparr>, http_get w req)
         | Inr resp \<Rightarrow>
             (Inr P, imp\<lparr> appScriptEtag := etag resp \<rparr>,
              if code resp = 304 then http_get w req
              else storeAppScript e (url_parse e U) P (body resp) (http_get w req)))"
  using assms
  by (auto simp: downloadAppScript_def Let_def sentEtag_def requestWithEtag_fst requestWithEtag_snd
           split: sum.splits)

lemma storeAppScript_requested:
  "\<exists>more. requested (storeAppScript e su P b w) = requested w @ more"
  by (auto simp: storeAppScript_def writeFile_def http_get_def Let_def split: option.splits)

lemma storeAppScript_written:
  "written (storeAppScript e su P b w) =
     written w @ [(P, case getSourceMapURL e su b of None \<Rightarrow> b | Some sm \<Rightarrow> updateScriptPaths e b sm)]"
  by (auto simp: storeAppScript_def writeFile_def http_get_def Let_def split: option.splits)

lemma storeAppScript_files:
  "files (storeAppScript e su P b w) =
     (files w)(P \<mapsto> (case getSourceMapURL e su b of None \<Rightarrow> b | Some sm \<Rightarrow> updateScriptPaths e b sm))"
  by (auto simp: storeAppScript_def writeFile_def http_get_def Let_def split: option.splits)

lemma etagResult_Inr:
  "etagResult out = Inr resp \<Longrightarrow>
   \<exists>res. out = Response res \<and> (statusCode res = 200 \<or> statusCode res = 304)
     \<and> etag resp = headers_etag res \<and> code resp = statusCode res \<and> body resp = content res"
  by (auto simp: etagResult_def split: http_outcome.splits if_splits)

text \<open>What a call that resolves has done.\<close>

lemma downloadAppScript_resolved:
  assumes "downloadAppScript e srv u imp w = (Inr p, imp', w')"
  shows "\<exists>pn res more.
      pathname (url_parse e (overriddenScriptUrlString e imp u)) = Some pn
    \<and> p = path_join e (sourcesStoragePath imp) (path_basename e pn)
    \<and> requested w' = requested w @ etagRequest (url_parse e) (overriddenScriptUrlString e imp u) (sentEtag imp w p) # more
    \<and> srv (etagRequest (url_parse e) (overriddenScriptUrlString e imp u) (sentEtag imp w p)) = Response res
    \<and> (statusCode res = 200 \<or> statusCode res = 304)
    \<and> imp' = imp\<lparr> appScriptEtag := headers_etag res \<rparr>
    \<and> (statusCode res = 304 \<longrightarrow> w' = http_get w (etagRequest (url_parse e) (overriddenScriptUrlString e imp u) (sentEtag imp w p)))
    \<and> (statusCode res = 200 \<longrightarrow> w' = storeAppScript e (url_parse e (overriddenScriptUrlString e imp u)) p (content res)
            (http_get w (etagRequest (url_parse e) (overriddenScriptUrlString e imp u) (sentEtag imp w p))))"
proof (cases "pathname (url_parse e (overriddenScriptUrlString e imp u))")
  case None
  with assms show ?thesis by (simp add: downloadAppScript_null)
next
  case (Some pn)
  let ?U = "overriddenScriptUrlString e imp u"
  let ?P = "path_join e (sourcesStoragePath imp) (path_basename e pn)"
  let ?req = "etagRequest (url_parse e) ?U (sentEtag imp w ?P)"
  from assms obtain resp where r: "etagResult (srv ?req) = Inr resp"
    and p: "p = ?P" and i: "imp' = imp\<lparr> appScriptEtag := etag resp \<rparr>"
    and w': "w' = (if code resp = 304 then http_get w ?req
              else storeAppScript e (url_parse e ?U) ?P (body resp) (http_get w ?req))"
    by (auto simp: downloadAppScript_unfold[OF Some refl refl refl] split: sum.splits)
  from etagResult_Inr[OF r] obtain res where res: "srv ?req = Response res"
    "statusCode res = 200 \<or> statusCode res = 304" "etag resp = headers_etag res"
    "code resp = statusCode res" "body resp = content res" by blast
  obtain more0 where m: "requested (storeAppScript e (url_parse e ?U) ?P (body resp) (http_get w ?req))
      = requested (http_get w ?req) @ more0"
    using storeAppScript_requested by blast
  have "\<exists>more. requested w' = requested w @ ?req # more"
    using w' m by (auto simp: http_get_def)
  then show ?thesis using Some p i w' res by auto
qed

lemma downloadAppScript_requested:
  assumes pn: "pathname (url_parse e (overriddenScriptUrlString e imp u)) = Some pn"
      and call: "downloadAppScript e srv u imp w = (r, imp', w')"
  shows "\<exists>more. requested w' = requested w @
     etagRequest (url_parse e) (overriddenScriptUrlString e imp u)
       (sentEtag imp w (path_join e (sourcesStoragePath imp) (path_basename e pn))) # more"
proof -
  let ?U = "overriddenScriptUrlString e imp u"
  let ?P = "path_join e (sourcesStoragePath imp) (path_basename e pn)"
  let ?req = "etagRequest (url_parse e) ?U (sentEtag imp w ?P)"
  have eq: "(r, imp', w') =
     (case etagResult (srv ?req) of
           Inl err \<Rightarrow> (Inl err, imp\<lparr> appScriptEtag := sentEtag imp w ?P \<rparr>, http_get w ?req)
         | Inr resp \<Rightarrow>
             (Inr ?P, imp\<lparr> appScriptEtag := etag resp \<rparr>,
              if code resp = 304 then http_get w ?req
              else storeAppScript e (url_parse e ?U) ?P (body resp) (http_get w ?req)))"
    using downloadAppScript_unfold[OF pn refl refl refl, of srv] call by simp
  show ?thesis
  proof (cases "etagResult (srv ?req)")
    case (Inl err)
    with eq have "w' = http_get w ?req" by simp
    then show ?thesis by (simp add: http_get_def)
  next
    case (Inr resp)
    obtain more0 where m: "requested (storeAppScript e (url_parse e ?U) ?P (body resp) (http_get w ?req))
      = requested (http_get w ?req) @ more0"
      using storeAppScript_requested by blast
    from Inr eq have "w' = (if code resp = 304 then http_get w ?req
              else storeAppScript e (url_parse e ?U) ?P (body resp) (http_get w ?req))" by simp
    then show ?thesis using m by (cases "code resp = 304") (simp_all add: http_get_def)
  qed
qed


lemmas run_importer = importer_defs node_defs cached_importer_def cached_world_def

lemma first_download:
  "downloadAppScript (node_env True) (packager ''v1'' ''BODY'') ''http://localhost:8081/index.bundle''
     (new_ScriptImporter 8081 ''/tmp/store'') empty_world
   = (Inr ''/tmp/store/index.bundle'', cached_importer, cached_world)"
  by (simp add: run_importer)


lemma field_with_field_same: "field (with_field m k v) k = Some v"
  by (induction m) (auto simp: field_def)

lemma field_with_field_other: "k' \<noteq> k \<Longrightarrow> field (with_field m k v) k' = field m k'"
  by (induction m) (auto simp: field_def)

lemma keys_with_field: "field m k = Some v' \<Longrightarrow> map fst (with_field m k v) = map fst m"
  by (induction m) (auto simp: field_def split: if_splits)

text \<open>
  Why \<open>overridePackagerPort\<close> deletes \<open>host\<close>: the reference \<open>url.format\<close> prefers
  \<open>host\<close> to \<open>hostname\<close> and \<open>port\<close>, so with \<open>host\<close> left in place the new port is
  ignored.
\<close>

lemma port_change_needs_host_deleted:
  "node_url_format ((node_url_parse ''http://localhost:8081/index.bundle'')\<lparr> port := Some ''1337'' \<rparr>)
     = ''http://localhost:8081/index.bundle''"
  "node_url_format ((node_url_parse ''http://localhost:8081/index.bundle'')
       \<lparr> port := Some ''1337'', host := None \<rparr>)
     = ''http://localhost:1337/index.bundle''"
  by (simp_all add: node_defs Let_def)

section \<open>Lemmas about the connection manager\<close>

lemmas cm_defs = cm_start_def cm_stop_def cm_message_def cm_started_def cm_close_def cm_elapse_def
  has_socket_def

lemma cm_start_cases:
  "cm_start cfg s = (s, []) \<or>
   cm_start cfg s = (s\<lparr> conn := Disconnected \<rparr>, [StartFailed (RangeError (cannotAttach (proxyPort cfg)))]) \<or>
   (\<exists>target. cm_start cfg s = (s\<lparr> conn := Connecting \<rparr>, [SocketConstructed target]))"
  by (simp add: cm_start_def)

lemma cm_start_worker: "worker (fst (cm_start cfg s)) = worker s"
  by (simp add: cm_start_def)

lemma cm_start_held: "held (fst (cm_start cfg s)) = held s"
  by (simp add: held_def cm_start_worker)

lemma cm_start_lifetime: "foldl lifetime A (snd (cm_start cfg s)) = A"
  using cm_start_cases[of cfg s] by auto

lemma cm_start_no_worker_action:
  "snd (cm_start cfg s) = p @ q \<Longrightarrow> foldl lifetime A p = A"
  using cm_start_cases[of cfg s] by (auto simp: append_eq_Cons_conv Cons_eq_append_conv)

lemma cm_start_not_created:
  "snd (cm_start cfg s) \<noteq> p @ WorkerCreated k # q"
  using cm_start_cases[of cfg s] by (auto simp: append_eq_Cons_conv Cons_eq_append_conv)

lemma step_held:
  "foldl lifetime (held s) (snd (cm_step cfg s ev)) = held (fst (cm_step cfg s ev))"
proof (cases ev)
  case (SocketMessage raw)
  then show ?thesis
    by (cases raw) (auto simp: cm_message_def held_def split: option.splits)
next
  case (Elapse d)
  then show ?thesis
    by (auto simp: cm_elapse_def Let_def held_def cm_start_lifetime cm_start_worker
             split: option.splits)
next
  case Start
  then show ?thesis
    by (simp add: cm_start_lifetime cm_start_held)
qed (auto simp: cm_defs held_def split: option.splits)

lemma step_prefix:
  assumes "snd (cm_step cfg s ev) = p @ q"
  shows "length (foldl lifetime (held s) p) \<le> 1"
proof (cases ev)
  case Start
  with assms cm_start_no_worker_action[of cfg s p q "held s"] show ?thesis
    by (simp add: held_def split: option.splits)
next
  case (SocketMessage raw)
  with assms show ?thesis
    by (cases raw)
       (auto simp: cm_message_def held_def append_eq_Cons_conv Cons_eq_append_conv
             split: option.splits if_splits)
next
  case (Elapse d)
  show ?thesis
  proof (cases p)
    case Nil
    then show ?thesis by (simp add: held_def split: option.splits)
  next
    case (Cons a p')
    with assms Elapse obtain t where "a = Reconnect t"
      and "snd (cm_start cfg (s\<lparr> now := max t (now s), timer := None \<rparr>)) = p' @ q"
      by (auto simp: cm_elapse_def Let_def split: option.splits if_splits)
    with cm_start_no_worker_action[of cfg _ p' q "held s"] Cons show ?thesis
      by (simp add: held_def split: option.splits)
  qed
qed (use assms in \<open>auto simp: cm_defs held_def append_eq_Cons_conv Cons_eq_append_conv
        split: option.splits if_splits\<close>)

lemma step_created:
  assumes "snd (cm_step cfg s ev) = p @ WorkerCreated k # q"
  shows "foldl lifetime (held s) p = []"
proof (cases ev)
  case Start
  with assms cm_start_not_created show ?thesis by simp
next
  case (SocketMessage raw)
  with assms show ?thesis
    by (cases raw)
       (auto simp: cm_message_def held_def append_eq_Cons_conv Cons_eq_append_conv
             split: option.splits if_splits)
next
  case (Elapse d)
  show ?thesis
  proof (cases p)
    case Nil
    with assms Elapse show ?thesis
      by (auto simp: cm_elapse_def Let_def split: option.splits if_splits)
  next
    case (Cons a p')
    with assms Elapse obtain t where
      "snd (cm_start cfg (s\<lparr> now := max t (now s), timer := None \<rparr>)) = p' @ WorkerCreated k # q"
      by (auto simp: cm_elapse_def Let_def split: option.splits if_splits)
    with cm_start_not_created show ?thesis by blast
  qed
qed (use assms in \<open>auto simp: cm_defs held_def append_eq_Cons_conv Cons_eq_append_conv
        split: option.splits if_splits\<close>)

lemma cm_log_Cons:
  "cm_log cfg s (ev # evs) = snd (cm_step cfg s ev) @ cm_log cfg (fst (cm_step cfg s ev)) evs"
  by (simp add: cm_log_def)

lemma log_held:
  "foldl lifetime (held s) (cm_log cfg s evs) = held (cm_run cfg s evs)"
  by (induction evs arbitrary: s) (simp_all add: cm_log_Cons step_held, simp add: cm_log_def)

lemma log_prefix:
  "cm_log cfg s evs = p @ q \<Longrightarrow> length (foldl lifetime (held s) p) \<le> 1"
proof (induction evs arbitrary: s p)
  case Nil
  then show ?case by (simp add: cm_log_def held_def split: option.splits)
next
  case (Cons ev evs)
  let ?acts = "snd (cm_step cfg s ev)"
  let ?s' = "fst (cm_step cfg s ev)"
  from Cons.prems have "?acts @ cm_log cfg ?s' evs = p @ q"
    by (simp add: cm_log_Cons)
  then consider us where "?acts = p @ us" | us where "p = ?acts @ us" "cm_log cfg ?s' evs = us @ q"
    by (auto simp: append_eq_append_conv2)
  then show ?case
  proof cases
    case 1
    then show ?thesis by (rule step_prefix)
  next
    case 2
    from Cons.IH[OF 2(2)] show ?thesis
      by (simp add: 2(1) step_held)
  qed
qed

lemma log_created:
  "cm_log cfg s evs = p @ WorkerCreated k # q \<Longrightarrow> foldl lifetime (held s) p = []"
proof (induction evs arbitrary: s p)
  case Nil
  then show ?case by (simp add: cm_log_def)
next
  case (Cons ev evs)
  let ?acts = "snd (cm_step cfg s ev)"
  let ?s' = "fst (cm_step cfg s ev)"
  from Cons.prems have "?acts @ cm_log cfg ?s' evs = p @ WorkerCreated k # q"
    by (simp add: cm_log_Cons)
  then consider us where "?acts = p @ WorkerCreated k # us"
    | us where "p = ?acts @ us" "cm_log cfg ?s' evs = us @ WorkerCreated k # q"
    by (auto simp: append_eq_append_conv2 append_eq_Cons_conv Cons_eq_append_conv)
  then show ?case
  proof cases
    case 1
    then show ?thesis by (rule step_created)
  next
    case 2
    from Cons.IH[OF 2(2)] show ?thesis
      by (simp add: 2(1) step_held)
  qed
qed

lemmas cm_eval = cm_log_def cm_defs cm_init_def test_config_def prepareJSRuntime_def field_def
  reply_def reconnectDelay_def cannotAttach_def toString.simps digit_def Let_def

lemma cm_start_awaiting:
  "awaiting (fst (cm_start cfg s)) = awaiting s" "next_worker (fst (cm_start cfg s)) = next_worker s"
  by (simp_all add: cm_start_def)

lemma step_next_worker: "next_worker s \<le> next_worker (fst (cm_step cfg s ev))"
proof (cases ev)
  case (SocketMessage raw)
  then show ?thesis by (cases raw) (auto simp: cm_message_def split: option.splits)
qed (auto simp: cm_defs cm_start_awaiting Let_def split: option.splits)

lemma run_next_worker: "next_worker s \<le> next_worker (cm_run cfg s evs)"
proof (induction evs arbitrary: s)
  case Nil
  show ?case by simp
next
  case (Cons ev evs)
  from step_next_worker[of s cfg ev] Cons.IH[of "fst (cm_step cfg s ev)"]
  show ?case by simp
qed

lemma filter_fst_subset: "set (filter (\<lambda>a. fst a \<noteq> k) xs) \<subseteq> set xs"
  by auto

lemma step_awaiting_ok:
  assumes "awaiting_ok s"
  shows "awaiting_ok (fst (cm_step cfg s ev))"
proof (cases ev)
  case (SocketMessage raw)
  with assms show ?thesis
    by (cases raw) (auto simp: awaiting_ok_def cm_message_def less_Suc_eq split: option.splits)
next
  case (WorkerStarted k)
  with assms show ?thesis
    by (auto simp: awaiting_ok_def cm_started_def distinct_map_filter split: option.splits)
qed (use assms in \<open>auto simp: awaiting_ok_def cm_defs cm_start_awaiting Let_def split: option.splits\<close>)

lemma run_awaiting_ok: "awaiting_ok s \<Longrightarrow> awaiting_ok (cm_run cfg s evs)"
  by (induction evs arbitrary: s) (simp_all add: step_awaiting_ok)

lemma init_awaiting_ok: "awaiting_ok cm_init"
  by (simp add: awaiting_ok_def cm_init_def)

lemma on_started_Cons:
  "on_started k ((t, ev, acts) # h) = (if ev = WorkerStarted k then acts else []) @ on_started k h"
  by (simp add: on_started_def)

lemma on_started_Nil: "on_started k [] = []"
  by (simp add: on_started_def)

text \<open>A worker that nobody waits for gets no reply, now or later.\<close>

lemma step_stays_unknown:
  assumes "map_of (awaiting s) k = None" "k < next_worker s"
  shows "map_of (awaiting (fst (cm_step cfg s ev))) k = None"
proof (cases ev)
  case (SocketMessage raw)
  with assms show ?thesis
    by (cases raw) (auto simp: cm_message_def split: option.splits)
next
  case (WorkerStarted j)
  with assms show ?thesis
    by (auto simp: cm_started_def map_of_eq_None_iff split: option.splits)
qed (use assms in \<open>auto simp: cm_defs cm_start_awaiting Let_def split: option.splits\<close>)

lemma no_reply_unknown:
  assumes "map_of (awaiting s) k = None" "k < next_worker s"
  shows "on_started k (cm_history cfg s evs) = []"
  using assms
proof (induction evs arbitrary: s)
  case Nil
  show ?case by (simp add: on_started_Nil)
next
  case (Cons ev evs)
  have here: "(if ev = WorkerStarted k then snd (cm_step cfg s ev) else []) = []"
    using Cons.prems by (auto simp: cm_started_def)
  have "k < next_worker (fst (cm_step cfg s ev))"
    using Cons.prems(2) step_next_worker[of s cfg ev] by simp
  with Cons.IH[OF step_stays_unknown[OF Cons.prems]] here show ?case
    by (simp add: on_started_Cons)
qed

text \<open>A worker not created yet gets no reply.\<close>

lemma no_reply_before_creation:
  assumes "awaiting_ok s" "next_worker (cm_run cfg s evs) \<le> k"
  shows "on_started k (cm_history cfg s evs) = []"
  using assms
proof (induction evs arbitrary: s)
  case Nil
  show ?case by (simp add: on_started_Nil)
next
  case (Cons ev evs)
  let ?s' = "fst (cm_step cfg s ev)"
  have "next_worker s \<le> k"
    using Cons.prems(2) run_next_worker[of ?s' cfg evs] step_next_worker[of s cfg ev] by simp
  with Cons.prems(1) have "map_of (awaiting s) k = None"
    by (force simp: awaiting_ok_def map_of_eq_None_iff)
  then have here: "(if ev = WorkerStarted k then snd (cm_step cfg s ev) else []) = []"
    by (auto simp: cm_started_def)
  from Cons.IH[OF step_awaiting_ok[OF Cons.prems(1)]] Cons.prems(2) here show ?case
    by (simp add: on_started_Cons)
qed

lemma map_of_filter_other:
  "j \<noteq> k \<Longrightarrow> map_of (filter (\<lambda>a. fst a \<noteq> j) xs) k = map_of xs k"
  by (induction xs) auto

lemma map_of_filter_same:
  "map_of (filter (\<lambda>a. fst a \<noteq> k) xs) k = None"
  by (induction xs) auto

text \<open>A worker somebody waits for gets the reply the first time its promise settles.\<close>

lemma step_keeps_waiting:
  assumes "map_of (awaiting s) k = Some m" "ev \<noteq> WorkerStarted k"
  shows "map_of (awaiting (fst (cm_step cfg s ev))) k = Some m"
proof (cases ev)
  case (SocketMessage raw)
  with assms show ?thesis
    by (cases raw) (auto simp: cm_message_def split: option.splits)
next
  case (WorkerStarted j)
  with assms have "j \<noteq> k" by simp
  with assms WorkerStarted show ?thesis
    by (auto simp: cm_started_def map_of_filter_other split: option.splits)
qed (use assms in \<open>auto simp: cm_defs cm_start_awaiting Let_def split: option.splits\<close>)

lemma reply_when_started:
  assumes "map_of (awaiting s) k = Some m" "awaiting_ok s"
  shows "on_started k (cm_history cfg s evs)
         = (if WorkerStarted k \<in> set evs then [SocketSend (reply m)] else [])"
  using assms
proof (induction evs arbitrary: s)
  case Nil
  show ?case by (simp add: on_started_Nil)
next
  case (Cons ev evs)
  let ?s' = "fst (cm_step cfg s ev)"
  show ?case
  proof (cases "ev = WorkerStarted k")
    case True
    with Cons.prems(1) have acts: "snd (cm_step cfg s ev) = [SocketSend (reply m)]"
      and gone: "map_of (awaiting ?s') k = None"
      by (simp_all add: cm_started_def map_of_filter_same)
    from Cons.prems have "k < next_worker s"
      by (force simp: awaiting_ok_def dest: map_of_SomeD)
    then have "k < next_worker ?s'"
      using step_next_worker[of s cfg ev] by simp
    from no_reply_unknown[OF gone this] acts True show ?thesis
      by (simp add: on_started_Cons)
  next
    case False
    from Cons.IH[OF step_keeps_waiting[OF Cons.prems(1) False] step_awaiting_ok[OF Cons.prems(2)]]
      False
    show ?thesis
      by (auto simp: on_started_Cons)
  qed
qed

lemma cm_start_no_send: "SocketSend x \<notin> set (snd (cm_start cfg s))"
  by (simp add: cm_start_def)

lemma sends_only_when_started:
  assumes "SocketSend x \<in> set (snd (cm_step cfg s ev))"
  shows "\<exists>k. ev = WorkerStarted k"
proof (cases ev)
  case (SocketMessage raw)
  with assms show ?thesis
    by (cases raw) (auto simp: cm_message_def split: option.splits if_splits)
next
  case (Elapse d)
  with assms show ?thesis
    by (auto simp: cm_elapse_def Let_def cm_start_no_send split: option.splits if_splits)
next
  case Start
  with assms show ?thesis
    by (simp add: cm_start_no_send)
qed (use assms in \<open>auto simp: cm_stop_def cm_close_def cm_started_def has_socket_def
       split: option.splits if_splits\<close>)

lemma history_sends_only_when_started:
  assumes "(t, ev, acts) \<in> set (cm_history cfg s evs)" "SocketSend x \<in> set acts"
  shows "\<exists>k. ev = WorkerStarted k"
  using assms
proof (induction evs arbitrary: s)
  case Nil
  then show ?case by simp
next
  case (Cons e evs)
  then show ?case
    by (auto dest: sends_only_when_started)
qed

lemma cm_history_append:
  "cm_history cfg s (xs @ ys) = cm_history cfg s xs @ cm_history cfg (cm_run cfg s xs) ys"
  by (induction xs arbitrary: s) simp_all





lemma elapsed_Cons: "elapsed (ev # evs) = elapsed [ev] + elapsed evs"
  by (cases ev) simp_all

lemma elapsed_append: "elapsed (xs @ ys) = elapsed xs + elapsed ys"
proof (induction xs)
  case Nil
  show ?case by simp
next
  case (Cons ev xs)
  then show ?case
    using elapsed_Cons[of ev "xs @ ys"] elapsed_Cons[of ev xs] by simp
qed









section \<open>The claims\<close>

subsection \<open>C1\<close>

text \<open>
  Claim C1. In every run of the connection manager, over any sequence of events, at most
  one sandbox worker is alive after each action of the run, and at the moment a worker is
  created none is alive: the worker that was active before has been stopped.
\<close>

theorem one_worker_at_a_time:
  "(\<forall>p q. cm_log cfg cm_init evs = p @ q \<longrightarrow> length (active p) \<le> 1)
   \<and> (\<forall>p k q. cm_log cfg cm_init evs = p @ WorkerCreated k # q \<longrightarrow> active p = [])"
  using log_prefix[of cfg cm_init evs] log_created[of cfg cm_init evs]
  by (simp add: active_def held_def cm_init_def)

text \<open>
  Two \<open>prepareJSRuntime\<close> messages in a row: worker 0 is stopped before worker 1 is
  created.
\<close>

theorem one_worker_at_a_time_witness:
  "cm_log (test_config True) cm_init
      [Start, SocketOpen, SocketMessage (Some (prepareJSRuntime 1)), WorkerStarted 0,
       SocketMessage (Some (prepareJSRuntime 2))]
    = [SocketConstructed ''ws://localhost:8081/debugger-proxy?role=debugger'',
       WorkerCreated 0, WorkerStart 0, SocketSend [(''replyID'', JNumber 1)], WorkerStop 0]
      @ WorkerCreated 1 # [WorkerStart 1]
   \<and> active [SocketConstructed ''ws://localhost:8081/debugger-proxy?role=debugger'',
         WorkerCreated 0, WorkerStart 0, SocketSend [(''replyID'', JNumber 1)], WorkerStop 0] = []
   \<and> length (active [SocketConstructed ''ws://localhost:8081/debugger-proxy?role=debugger'',
         WorkerCreated 0, WorkerStart 0, SocketSend [(''replyID'', JNumber 1)], WorkerStop 0]) \<le> 1"
proof -
  let ?evs = "[Start, SocketOpen, SocketMessage (Some (prepareJSRuntime 1)), WorkerStarted 0,
       SocketMessage (Some (prepareJSRuntime 2))]"
  let ?p = "[SocketConstructed ''ws://localhost:8081/debugger-proxy?role=debugger'',
       WorkerCreated 0, WorkerStart 0, SocketSend [(''replyID'', JNumber 1)], WorkerStop 0]"
  have run: "cm_log (test_config True) cm_init ?evs = ?p @ WorkerCreated 1 # [WorkerStart 1]"
    by (simp add: cm_eval)
  note claim = one_worker_at_a_time[of "test_config True" ?evs]
  have "active ?p = []"
    by (rule claim[THEN conjunct2, rule_format, OF run])
  moreover have "length (active ?p) \<le> 1"
    by (rule claim[THEN conjunct1, rule_format, OF run])
  ultimately show ?thesis using run by (intro conjI)
qed

subsection \<open>C5\<close>

text \<open>
  Claim C5. When a \<open>downloadAppScript\<close> call has returned a path and the next call with
  the same URL is answered with status 304, the second call returns the same path and
  writes nothing: the \<open>writeFile\<close> calls, the files and the detached source map writes
  are those left by the first call, and its only request is the conditional GET.
\<close>

theorem downloadAppScript_not_modified:
  assumes first: "downloadAppScript e srv1 u imp w = (Inr p, imp1, w1)"
      and second: "downloadAppScript e srv2 u imp1 w1 = (r2, imp2, w2)"
      and answer: "srv2 (requested w2 ! length (requested w1)) = Response res"
      and unchanged: "statusCode res = 304"
  shows "r2 = Inr p \<and> written w2 = written w1 \<and> files w2 = files w1 \<and> detached w2 = detached w1
         \<and> requested w2 = requested w1 @ [requested w2 ! length (requested w1)]"
proof -
  let ?U = "overriddenScriptUrlString e imp u"
  from downloadAppScript_resolved[OF first] obtain pn res1 where
    pn: "pathname (url_parse e ?U) = Some pn"
    and p: "p = path_join e (sourcesStoragePath imp) (path_basename e pn)"
    and imp1: "imp1 = imp\<lparr> appScriptEtag := headers_etag res1 \<rparr>"
    by blast
  have U: "?U = overriddenScriptUrlString e imp1 u"
    using imp1 by (simp add: overridden_etag_update)
  have P1: "p = path_join e (sourcesStoragePath imp1) (path_basename e pn)"
    using p imp1 by simp
  have pn1: "pathname (url_parse e (overriddenScriptUrlString e imp1 u)) = Some pn"
    using pn U by simp
  let ?req = "etagRequest (url_parse e) ?U (sentEtag imp1 w1 p)"
  from downloadAppScript_requested[OF pn1 second]
  have "\<exists>more. requested w2 = requested w1 @ ?req # more"
    by (simp only: U[symmetric] P1[symmetric])
  then have nth: "requested w2 ! length (requested w1) = ?req"
    by auto
  with answer have "srv2 ?req = Response res" by simp
  with unchanged have "etagResult (srv2 ?req)
      = Inr \<lparr> etag = headers_etag res, code = 304, body = content res \<rparr>"
    by (simp add: etagResult_def)
  with downloadAppScript_unfold[OF pn1 U P1 refl, of srv2] second
  have "r2 = Inr p" and "w2 = http_get w1 ?req"
    by simp_all
  then show ?thesis using nth by (simp add: http_get_def)
qed


text \<open>
  The bundle is fetched into an empty store; fetched again from the same packager, the
  request carries the ETag, the answer is 304 and nothing is written.
\<close>

theorem downloadAppScript_not_modified_witness:
  "downloadAppScript (node_env True) (packager ''v1'' ''BODY'') ''http://localhost:8081/index.bundle''
     (new_ScriptImporter 8081 ''/tmp/store'') empty_world
   = (Inr ''/tmp/store/index.bundle'', cached_importer, cached_world)
   \<and> packager ''v1'' ''BODY''
        (requested (snd (snd (downloadAppScript (node_env True) (packager ''v1'' ''BODY'')
            ''http://localhost:8081/index.bundle'' cached_importer cached_world)))
          ! length (requested cached_world))
      = Response \<lparr> statusCode = 304, headers = Some [(''etag'', ''v1'')], content = [] \<rparr>
   \<and> fst (downloadAppScript (node_env True) (packager ''v1'' ''BODY'')
            ''http://localhost:8081/index.bundle'' cached_importer cached_world)
      = Inr ''/tmp/store/index.bundle''
   \<and> written (snd (snd (downloadAppScript (node_env True) (packager ''v1'' ''BODY'')
            ''http://localhost:8081/index.bundle'' cached_importer cached_world)))
      = written cached_world"
proof -
  let ?e = "node_env True"
  let ?srv = "packager ''v1'' ''BODY''"
  let ?u = "''http://localhost:8081/index.bundle''"
  let ?second = "downloadAppScript ?e ?srv ?u cached_importer cached_world"
  let ?r304 = "\<lparr> statusCode = 304, headers = Some [(''etag'', ''v1'')], content = [] \<rparr>"
  have second: "?second = (fst ?second, fst (snd ?second), snd (snd ?second))"
    by simp
  have answer: "?srv (requested (snd (snd ?second)) ! length (requested cached_world)) = Response ?r304"
    by (simp add: run_importer)
  have unchanged: "statusCode ?r304 = 304"
    by simp
  note claim = downloadAppScript_not_modified[OF first_download second answer unchanged]
  from claim have "fst ?second = Inr ''/tmp/store/index.bundle''"
    by (rule conjunct1)
  moreover from claim have "written (snd (snd ?second)) = written cached_world"
    by (elim conjE)
  ultimately show ?thesis using first_download answer by (intro conjI)
qed

subsection \<open>C8\<close>

text \<open>
  Claim C8, amended. \<open>requestWithEtag\<close> attaches the header \<open>If-None-Match: x\<close> if and
  only if the ETag \<open>x\<close> is supplied and is not the empty string. A response with status
  200 or 304 resolves the promise with the body, the status and the \<open>etag\<close> response
  header (absent when the response has none); a response with any other status rejects
  it with an error whose message is the response body.
\<close>

theorem requestWithEtag_contract:
  "(\<forall>x. ((''If-None-Match'', x) \<in> set (request_headers (fst (requestWithEtag parse srv u e))))
          = (e = Some x \<and> x \<noteq> []))
   \<and> (\<forall>res. srv (fst (requestWithEtag parse srv u e)) = Response res
          \<and> (statusCode res = 200 \<or> statusCode res = 304)
        \<longrightarrow> snd (requestWithEtag parse srv u e)
             = Inr \<lparr> etag = headers_etag res, code = statusCode res, body = content res \<rparr>)
   \<and> (\<forall>res. srv (fst (requestWithEtag parse srv u e)) = Response res
          \<and> statusCode res \<noteq> 200 \<and> statusCode res \<noteq> 304
        \<longrightarrow> (\<exists>err. snd (requestWithEtag parse srv u e) = Inl err \<and> message err = content res))"
  by (cases e) (auto simp: requestWithEtag_def Let_def etagResult_def)


text \<open>
  A conditional request answered with 304, an unconditional one answered with 200, and
  a 404.
\<close>

theorem requestWithEtag_contract_witness:
  "(''If-None-Match'', ''v1'') \<in> set (request_headers (fst (requestWithEtag node_url_parse
        (packager ''v1'' ''BODY'') ''http://localhost:8081/index.bundle'' (Some ''v1''))))
   \<and> snd (requestWithEtag node_url_parse (packager ''v1'' ''BODY'')
          ''http://localhost:8081/index.bundle'' (Some ''v1''))
       = Inr \<lparr> etag = Some ''v1'', code = 304, body = [] \<rparr>
   \<and> snd (requestWithEtag node_url_parse (packager ''v1'' ''BODY'')
          ''http://localhost:8081/index.bundle'' None)
       = Inr \<lparr> etag = Some ''v1'', code = 200, body = ''BODY'' \<rparr>
   \<and> (\<exists>err. snd (requestWithEtag node_url_parse
          (\<lambda>r. Response \<lparr> statusCode = 404, headers = None, content = ''not found'' \<rparr>)
          ''http://localhost:8081/index.bundle'' None) = Inl err \<and> message err = ''not found'')"
proof -
  let ?u = "''http://localhost:8081/index.bundle''"
  let ?srv = "packager ''v1'' ''BODY''"
  let ?down = "\<lambda>r::http_request. Response \<lparr> statusCode = 404, headers = None, content = ''not found'' \<rparr>"
  let ?r304 = "\<lparr> statusCode = 304, headers = Some [(''etag'', ''v1'')], content = [] \<rparr>"
  let ?r200 = "\<lparr> statusCode = 200, headers = Some [(''etag'', ''v1'')], content = ''BODY'' \<rparr>"
  let ?r404 = "\<lparr> statusCode = 404, headers = None, content = ''not found'' \<rparr>"
  note c1 = requestWithEtag_contract[of node_url_parse ?srv ?u "Some ''v1''"]
  note c2 = requestWithEtag_contract[of node_url_parse ?srv ?u None]
  note c3 = requestWithEtag_contract[of node_url_parse ?down ?u None]
  have a1: "?srv (fst (requestWithEtag node_url_parse ?srv ?u (Some ''v1''))) = Response ?r304"
    by (simp add: requestWithEtag_def Let_def packager_def)
  have a2: "?srv (fst (requestWithEtag node_url_parse ?srv ?u None)) = Response ?r200"
    by (simp add: requestWithEtag_def Let_def packager_def)
  have a3: "?down (fst (requestWithEtag node_url_parse ?down ?u None)) = Response ?r404"
    by simp
  from c1 have "(''If-None-Match'', ''v1'') \<in> set (request_headers (fst (requestWithEtag node_url_parse
        ?srv ?u (Some ''v1''))))"
    by simp
  moreover from c1 a1 have "snd (requestWithEtag node_url_parse ?srv ?u (Some ''v1''))
       = Inr \<lparr> etag = Some ''v1'', code = 304, body = [] \<rparr>"
    by (simp add: headers_etag_def)
  moreover from c2 a2 have "snd (requestWithEtag node_url_parse ?srv ?u None)
       = Inr \<lparr> etag = Some ''v1'', code = 200, body = ''BODY'' \<rparr>"
    by (simp add: headers_etag_def)
  moreover from c3 a3 have "\<exists>err. snd (requestWithEtag node_url_parse ?down ?u None) = Inl err
       \<and> message err = ''not found''"
    by simp
  ultimately show ?thesis by blast
qed


text \<open>
  Claim C8 as stated fails for the empty string: it is an ETag supplied to
  \<open>requestWithEtag\<close>, and the request carries no header.
\<close>

theorem requestWithEtag_empty_etag:
  "request_headers (fst (requestWithEtag node_url_parse (packager ''v1'' ''BODY'')
       ''http://localhost:8081/index.bundle'' (Some []))) = []"
  by (simp add: requestWithEtag_def Let_def)

subsection \<open>C6\<close>

text \<open>
  Claim C6. When no file exists at the cache path, the remembered ETag plays no part in
  a \<open>downloadAppScript\<close> call: the request is the plain GET of the URL string, without
  an \<open>If-None-Match\<close> header, and the call does exactly what it does with no remembered
  ETag. When that request is answered with status 200, the call returns the cache path
  and writes to it the script body: the response body, with its source map reference
  rewritten when it has one.
\<close>

theorem downloadAppScript_no_cache_file:
  assumes pn: "pathname (url_parse e (overriddenScriptUrlString e imp u)) = Some pn"
      and missing: "\<not> existsSync w (path_join e (sourcesStoragePath imp) (path_basename e pn))"
      and call: "downloadAppScript e srv u imp w = (r, imp', w')"
  shows "requested w' ! length (requested w) = GetString (overriddenScriptUrlString e imp u)
       \<and> request_headers (requested w' ! length (requested w)) = []
       \<and> downloadAppScript e srv u (imp\<lparr> appScriptEtag := None \<rparr>) w = (r, imp', w')
       \<and> (\<forall>res. srv (GetString (overriddenScriptUrlString e imp u)) = Response res \<and> statusCode res = 200
            \<longrightarrow> r = Inr (path_join e (sourcesStoragePath imp) (path_basename e pn))
              \<and> written w' = written w @
                    [(path_join e (sourcesStoragePath imp) (path_basename e pn),
                      case getSourceMapURL e (url_parse e (overriddenScriptUrlString e imp u)) (content res) of
                        None \<Rightarrow> content res
                      | Some sourceMappingUrl \<Rightarrow> updateScriptPaths e (content res) sourceMappingUrl)]
              \<and> files w' (path_join e (sourcesStoragePath imp) (path_basename e pn)) =
                    Some (case getSourceMapURL e (url_parse e (overriddenScriptUrlString e imp u)) (content res) of
                        None \<Rightarrow> content res
                      | Some sourceMappingUrl \<Rightarrow> updateScriptPaths e (content res) sourceMappingUrl))"
proof -
  let ?U = "overriddenScriptUrlString e imp u"
  let ?P = "path_join e (sourcesStoragePath imp) (path_basename e pn)"
  have tag: "sentEtag imp w ?P = None"
    using missing by (simp add: sentEtag_def)
  have "GetString ?U = etagRequest (url_parse e) ?U (sentEtag imp w ?P)"
    using tag by simp
  note unf0 = downloadAppScript_unfold[OF pn refl refl this, of srv]
  note unf = unf0[unfolded tag]
  have req: "\<exists>more. requested w' = requested w @ GetString ?U # more"
  proof (cases "etagResult (srv (GetString ?U))")
    case (Inl err)
    with unf call show ?thesis by (auto simp: Let_def http_get_def)
  next
    case (Inr resp)
    obtain more0 where "requested (storeAppScript e (url_parse e ?U) ?P (body resp) (http_get w (GetString ?U)))
      = requested (http_get w (GetString ?U)) @ more0"
      using storeAppScript_requested by blast
    with Inr unf call show ?thesis
      by (auto simp: Let_def http_get_def split: if_splits)
  qed
  then have first: "requested w' ! length (requested w) = GetString ?U"
    by auto
  have same: "downloadAppScript e srv u (imp\<lparr> appScriptEtag := None \<rparr>) w = (r, imp', w')"
  proof -
    have U': "overriddenScriptUrlString e (imp\<lparr> appScriptEtag := None \<rparr>) u = ?U"
      by (simp add: overridden_etag_update)
    have pn': "pathname (url_parse e (overriddenScriptUrlString e (imp\<lparr> appScriptEtag := None \<rparr>) u)) = Some pn"
      using pn U' by simp
    have tag': "sentEtag (imp\<lparr> appScriptEtag := None \<rparr>) w ?P = None"
      by (simp add: sentEtag_def)
    have "GetString ?U = etagRequest (url_parse e) ?U
        (sentEtag (imp\<lparr> appScriptEtag := None \<rparr>) w
           (path_join e (sourcesStoragePath (imp\<lparr> appScriptEtag := None \<rparr>)) (path_basename e pn)))"
      using tag' by simp
    from downloadAppScript_unfold[OF pn' U'[symmetric] refl this, of srv]
    have "downloadAppScript e srv u (imp\<lparr> appScriptEtag := None \<rparr>) w =
      (case etagResult (srv (GetString ?U)) of
           Inl err \<Rightarrow> (Inl err, imp\<lparr> appScriptEtag := None \<rparr>, http_get w (GetString ?U))
         | Inr resp \<Rightarrow>
             (Inr ?P, imp\<lparr> appScriptEtag := etag resp \<rparr>,
              if code resp = 304 then http_get w (GetString ?U)
              else storeAppScript e (url_parse e ?U) ?P (body resp) (http_get w (GetString ?U))))"
      by (simp add: tag' split: sum.splits)
    also have "\<dots> = downloadAppScript e srv u imp w"
      by (simp only: unf)
    finally have "downloadAppScript e srv u (imp\<lparr> appScriptEtag := None \<rparr>) w = downloadAppScript e srv u imp w" .
    with call show ?thesis by simp
  qed
  have fetch: "r = Inr ?P
      \<and> written w' = written w @ [(?P, case getSourceMapURL e (url_parse e ?U) (content res) of
                        None \<Rightarrow> content res | Some sm \<Rightarrow> updateScriptPaths e (content res) sm)]
      \<and> files w' ?P = Some (case getSourceMapURL e (url_parse e ?U) (content res) of
                        None \<Rightarrow> content res | Some sm \<Rightarrow> updateScriptPaths e (content res) sm)"
    if "srv (GetString ?U) = Response res" and "statusCode res = 200" for res
  proof -
    from that have "etagResult (srv (GetString ?U))
        = Inr \<lparr> etag = headers_etag res, code = 200, body = content res \<rparr>"
      by (simp add: etagResult_def)
    with unf call have "r = Inr ?P"
      and "w' = storeAppScript e (url_parse e ?U) ?P (content res) (http_get w (GetString ?U))"
      by (simp_all add: Let_def)
    then show ?thesis
      by (simp add: storeAppScript_written storeAppScript_files http_get_def)
  qed
  from first have "request_headers (requested w' ! length (requested w)) = []"
    by simp
  with first same fetch show ?thesis by blast
qed


text \<open>
  An importer that remembers the ETag \<open>v1\<close> and an empty store: the request carries no
  header and the bundle is written.
\<close>

theorem downloadAppScript_no_cache_file_witness:
  "pathname (url_parse (node_env True)
       (overriddenScriptUrlString (node_env True) cached_importer ''http://localhost:8081/index.bundle''))
     = Some ''/index.bundle''
   \<and> \<not> existsSync empty_world
        (path_join (node_env True) (sourcesStoragePath cached_importer)
           (path_basename (node_env True) ''/index.bundle''))
   \<and> packager ''v1'' ''BODY''
        (GetString (overriddenScriptUrlString (node_env True) cached_importer ''http://localhost:8081/index.bundle''))
       = Response \<lparr> statusCode = 200, headers = Some [(''etag'', ''v1'')], content = ''BODY'' \<rparr>
   \<and> request_headers
        (requested (snd (snd (downloadAppScript (node_env True) (packager ''v1'' ''BODY'')
            ''http://localhost:8081/index.bundle'' cached_importer empty_world)))
          ! length (requested empty_world)) = []
   \<and> written (snd (snd (downloadAppScript (node_env True) (packager ''v1'' ''BODY'')
            ''http://localhost:8081/index.bundle'' cached_importer empty_world)))
       = [(''/tmp/store/index.bundle'', ''BODY'')]"
proof -
  let ?e = "node_env True"
  let ?srv = "packager ''v1'' ''BODY''"
  let ?u = "''http://localhost:8081/index.bundle''"
  let ?call = "downloadAppScript ?e ?srv ?u cached_importer empty_world"
  let ?r200 = "\<lparr> statusCode = 200, headers = Some [(''etag'', ''v1'')], content = ''BODY'' \<rparr>"
  have pn: "pathname (url_parse ?e (overriddenScriptUrlString ?e cached_importer ?u)) = Some ''/index.bundle''"
    by (simp add: run_importer)
  have missing: "\<not> existsSync empty_world
        (path_join ?e (sourcesStoragePath cached_importer) (path_basename ?e ''/index.bundle''))"
    by (simp add: existsSync_def empty_world_def)
  have call: "?call = (fst ?call, fst (snd ?call), snd (snd ?call))"
    by simp
  have answer: "?srv (GetString (overriddenScriptUrlString ?e cached_importer ?u)) = Response ?r200"
    by (simp add: packager_def)
  note claim = downloadAppScript_no_cache_file[OF pn missing call]
  from claim have headers: "request_headers (requested (snd (snd ?call)) ! length (requested empty_world)) = []"
    by (elim conjE)
  from claim have "\<forall>res. ?srv (GetString (overriddenScriptUrlString ?e cached_importer ?u)) = Response res
        \<and> statusCode res = 200
      \<longrightarrow> fst ?call = Inr (path_join ?e (sourcesStoragePath cached_importer) (path_basename ?e ''/index.bundle''))
        \<and> written (snd (snd ?call)) = written empty_world @
              [(path_join ?e (sourcesStoragePath cached_importer) (path_basename ?e ''/index.bundle''),
                case getSourceMapURL ?e (url_parse ?e (overriddenScriptUrlString ?e cached_importer ?u)) (content res) of
                  None \<Rightarrow> content res
                | Some sourceMappingUrl \<Rightarrow> updateScriptPaths ?e (content res) sourceMappingUrl)]
        \<and> files (snd (snd ?call)) (path_join ?e (sourcesStoragePath cached_importer) (path_basename ?e ''/index.bundle'')) =
              Some (case getSourceMapURL ?e (url_parse ?e (overriddenScriptUrlString ?e cached_importer ?u)) (content res) of
                  None \<Rightarrow> content res
                | Some sourceMappingUrl \<Rightarrow> updateScriptPaths ?e (content res) sourceMappingUrl)"
    by (elim conjE)
  from this[rule_format, of ?r200] answer
  have "written (snd (snd ?call)) = written empty_world @
              [(path_join ?e (sourcesStoragePath cached_importer) (path_basename ?e ''/index.bundle''),
                case getSourceMapURL ?e (url_parse ?e (overriddenScriptUrlString ?e cached_importer ?u)) (content ?r200) of
                  None \<Rightarrow> content ?r200
                | Some sourceMappingUrl \<Rightarrow> updateScriptPaths ?e (content ?r200) sourceMappingUrl)]"
    by simp
  then have "written (snd (snd ?call)) = [(''/tmp/store/index.bundle'', ''BODY'')]"
    by (simp add: node_defs cached_importer_def)
  with pn missing answer headers show ?thesis by (intro conjI)
qed

subsection \<open>C7\<close>

text \<open>
  Claim C7. The URL that \<open>downloadAppScript\<close> fetches is, when the host name of the
  script URL is \<open>localhost\<close>, the script URL formatted again with its port replaced by
  the configured packager port and its \<open>host\<close> field cleared, and the script URL itself
  otherwise; the request of the call is built from that URL.
\<close>

theorem downloadAppScript_fetch_url:
  "overriddenScriptUrlString e imp u =
      (if hostname (url_parse e u) = Some ''localhost''
       then url_format e ((url_parse e u)\<lparr> port := Some (toString (packagerPort imp)), host := None \<rparr>)
       else u)
   \<and> (\<forall>pn r imp' w'.
         pathname (url_parse e (overriddenScriptUrlString e imp u)) = Some pn
         \<and> downloadAppScript e srv u imp w = (r, imp', w')
       \<longrightarrow> requested w' ! length (requested w)
           = etagRequest (url_parse e) (overriddenScriptUrlString e imp u)
               (if existsSync w (path_join e (sourcesStoragePath imp) (path_basename e pn))
                then appScriptEtag imp else None))"
proof -
  have "requested w' ! length (requested w)
           = etagRequest (url_parse e) (overriddenScriptUrlString e imp u)
               (if existsSync w (path_join e (sourcesStoragePath imp) (path_basename e pn))
                then appScriptEtag imp else None)"
    if "pathname (url_parse e (overriddenScriptUrlString e imp u)) = Some pn"
      and "downloadAppScript e srv u imp w = (r, imp', w')" for pn r imp' w'
  proof -
    from downloadAppScript_requested[OF that] obtain more where
      "requested w' = requested w @
         etagRequest (url_parse e) (overriddenScriptUrlString e imp u)
           (sentEtag imp w (path_join e (sourcesStoragePath imp) (path_basename e pn))) # more"
      by blast
    then show ?thesis
      by (simp add: sentEtag_def)
  qed
  moreover have "overriddenScriptUrlString e imp u =
      (if hostname (url_parse e u) = Some ''localhost''
       then url_format e ((url_parse e u)\<lparr> port := Some (toString (packagerPort imp)), host := None \<rparr>)
       else u)"
    by (simp add: overriddenScriptUrlString_def overridePackagerPort_def Let_def)
  ultimately show ?thesis by blast
qed


text \<open>
  With packager port 1337, \<open>localhost:8081\<close> becomes \<open>localhost:1337\<close>, and the emulator
  host \<open>10.0.2.2:8081\<close> is left alone.
\<close>

theorem downloadAppScript_fetch_url_witness:
  "hostname (url_parse (node_env True) ''http://localhost:8081/index.bundle?platform=ios'') = Some ''localhost''
   \<and> overriddenScriptUrlString (node_env True) (new_ScriptImporter 1337 ''/tmp/store'')
        ''http://localhost:8081/index.bundle?platform=ios''
      = ''http://localhost:1337/index.bundle?platform=ios''
   \<and> hostname (url_parse (node_env True) ''http://10.0.2.2:8081/index.bundle?platform=ios'') = Some ''10.0.2.2''
   \<and> overriddenScriptUrlString (node_env True) (new_ScriptImporter 1337 ''/tmp/store'')
        ''http://10.0.2.2:8081/index.bundle?platform=ios''
      = ''http://10.0.2.2:8081/index.bundle?platform=ios''
   \<and> pathname (url_parse (node_env True) ''http://localhost:1337/index.bundle?platform=ios'')
      = Some ''/index.bundle''
   \<and> requested (snd (snd (downloadAppScript (node_env True) (packager ''v1'' ''BODY'')
         ''http://localhost:8081/index.bundle?platform=ios''
         (new_ScriptImporter 1337 ''/tmp/store'') empty_world))) ! length (requested empty_world)
       = GetString ''http://localhost:1337/index.bundle?platform=ios''"
proof -
  let ?e = "node_env True"
  let ?imp = "new_ScriptImporter 1337 ''/tmp/store''"
  let ?u = "''http://localhost:8081/index.bundle?platform=ios''"
  let ?v = "''http://10.0.2.2:8081/index.bundle?platform=ios''"
  let ?U = "''http://localhost:1337/index.bundle?platform=ios''"
  let ?srv = "packager ''v1'' ''BODY''"
  let ?call = "downloadAppScript ?e ?srv ?u ?imp empty_world"
  have h1: "hostname (url_parse ?e ?u) = Some ''localhost''"
    by (simp add: node_defs Let_def)
  have h2: "hostname (url_parse ?e ?v) = Some ''10.0.2.2''"
    by (simp add: node_defs Let_def)
  have f1: "url_format ?e ((url_parse ?e ?u)\<lparr> port := Some (toString (packagerPort ?imp)), host := None \<rparr>) = ?U"
    by (simp add: node_defs Let_def)
  note claim1 = downloadAppScript_fetch_url[of ?e ?imp ?u ?srv empty_world]
  note claim2 = downloadAppScript_fetch_url[of ?e ?imp ?v ?srv empty_world]
  from claim1[THEN conjunct1] h1 f1 have o1: "overriddenScriptUrlString ?e ?imp ?u = ?U"
    by simp
  from claim2[THEN conjunct1] h2 have o2: "overriddenScriptUrlString ?e ?imp ?v = ?v"
    by simp
  have pn: "pathname (url_parse ?e ?U) = Some ''/index.bundle''"
    by (simp add: node_defs Let_def)
  have pn': "pathname (url_parse ?e (overriddenScriptUrlString ?e ?imp ?u)) = Some ''/index.bundle''"
    using pn o1 by simp
  have call: "?call = (fst ?call, fst (snd ?call), snd (snd ?call))"
    by simp
  from claim1[THEN conjunct2, rule_format, OF conjI[OF pn' call]]
  have "requested (snd (snd ?call)) ! length (requested empty_world)
      = etagRequest (url_parse ?e) ?U
          (if existsSync empty_world (path_join ?e (sourcesStoragePath ?imp) (path_basename ?e ''/index.bundle''))
           then appScriptEtag ?imp else None)"
    by (simp only: o1)
  then have "requested (snd (snd ?call)) ! length (requested empty_world) = GetString ?U"
    by (simp add: existsSync_def empty_world_def)
  with h1 h2 o1 o2 pn show ?thesis by (intro conjI)
qed

subsection \<open>C3\<close>

text \<open>
  Claim C3. Let a \<open>prepareJSRuntime\<close> message \<open>m\<close> arrive on the socket after any
  history. The manager creates a worker and calls its \<open>start()\<close> without sending
  anything; in the steps in which the \<open>start()\<close> promise of that worker settles, before
  and after, the manager does in all one thing, sending the reply \<open>{"replyID": id}\<close> of
  \<open>m\<close>, when the promise settles at all, and nothing when it does not; and in the whole
  run nothing is sent on the socket except in a step in which a \<open>start()\<close> promise has
  settled.
\<close>

theorem reply_once_after_start:
  assumes reached: "s = cm_run cfg cm_init before"
      and socket: "has_socket s"
      and prepare: "field m ''method'' = Some (JString ''prepareJSRuntime'')"
  shows "snd (cm_step cfg s (SocketMessage (Some m)))
           = (case worker s of None \<Rightarrow> [] | Some old \<Rightarrow> [WorkerStop old])
             @ [WorkerCreated (next_worker s), WorkerStart (next_worker s)]
       \<and> on_started (next_worker s) (cm_history cfg cm_init before) = []
       \<and> on_started (next_worker s)
            (cm_history cfg (fst (cm_step cfg s (SocketMessage (Some m)))) after)
           = (if WorkerStarted (next_worker s) \<in> set after then [SocketSend (reply m)] else [])
       \<and> (\<forall>t ev acts x.
             (t, ev, acts) \<in> set (cm_history cfg cm_init (before @ SocketMessage (Some m) # after))
             \<and> SocketSend x \<in> set acts
           \<longrightarrow> (\<exists>k. ev = WorkerStarted k))"
proof -
  let ?s' = "fst (cm_step cfg s (SocketMessage (Some m)))"
  have ok: "awaiting_ok s"
    using reached run_awaiting_ok[OF init_awaiting_ok] by simp
  have step: "cm_step cfg s (SocketMessage (Some m)) = cm_message s m"
    using socket by simp
  have acts: "snd (cm_step cfg s (SocketMessage (Some m)))
           = (case worker s of None \<Rightarrow> [] | Some old \<Rightarrow> [WorkerStop old])
             @ [WorkerCreated (next_worker s), WorkerStart (next_worker s)]"
    using prepare socket by (simp add: cm_message_def)
  have before: "on_started (next_worker s) (cm_history cfg cm_init before) = []"
    using no_reply_before_creation[OF init_awaiting_ok, of cfg before "next_worker s"] reached
    by simp
  have fresh: "map_of (awaiting s) (next_worker s) = None"
    using ok by (force simp: awaiting_ok_def map_of_eq_None_iff)
  have waiting: "map_of (awaiting ?s') (next_worker s) = Some m"
    using prepare fresh socket by (simp add: cm_message_def map_add_Some_iff)
  have ok': "awaiting_ok ?s'"
    using ok by (rule step_awaiting_ok)
  from reply_when_started[OF waiting ok']
  have after: "on_started (next_worker s) (cm_history cfg ?s' after)
           = (if WorkerStarted (next_worker s) \<in> set after then [SocketSend (reply m)] else [])" .
  from acts before after history_sends_only_when_started show ?thesis
    by blast
qed


text \<open>
  The request with id 1 on a fresh connection: worker 0 is created; its promise settling
  twice gives one reply, and no reply is sent while it has not settled.
\<close>

theorem reply_once_after_start_witness:
  "has_socket (cm_run (test_config True) cm_init [Start, SocketOpen])
   \<and> field (prepareJSRuntime 1) ''method'' = Some (JString ''prepareJSRuntime'')
   \<and> snd (cm_step (test_config True) (cm_run (test_config True) cm_init [Start, SocketOpen])
          (SocketMessage (Some (prepareJSRuntime 1))))
       = [WorkerCreated 0, WorkerStart 0]
   \<and> on_started 0
        (cm_history (test_config True)
           (fst (cm_step (test_config True) (cm_run (test_config True) cm_init [Start, SocketOpen])
                   (SocketMessage (Some (prepareJSRuntime 1)))))
           [SocketMessage (Some [(''method'', JString ''unknownMethod'')]), WorkerStarted 0,
            WorkerStarted 0])
       = [SocketSend [(''replyID'', JNumber 1)]]
   \<and> on_started 0
        (cm_history (test_config True)
           (fst (cm_step (test_config True) (cm_run (test_config True) cm_init [Start, SocketOpen])
                   (SocketMessage (Some (prepareJSRuntime 1)))))
           [SocketMessage (Some [(''method'', JString ''unknownMethod'')])])
       = []"
proof -
  let ?cfg = "test_config True"
  let ?s = "cm_run ?cfg cm_init [Start, SocketOpen]"
  let ?m = "prepareJSRuntime 1"
  let ?other = "SocketMessage (Some [(''method'', JString ''unknownMethod'')])"
  have socket: "has_socket ?s"
    by (simp add: cm_eval)
  have prepare: "field ?m ''method'' = Some (JString ''prepareJSRuntime'')"
    by (simp add: field_def prepareJSRuntime_def)
  have fresh: "next_worker ?s = 0" and idle: "worker ?s = None"
    by (simp_all add: cm_eval)
  have answer: "reply ?m = [(''replyID'', JNumber 1)]"
    by (simp add: reply_def field_def prepareJSRuntime_def)
  note settled = reply_once_after_start[OF refl socket prepare, of "[?other, WorkerStarted 0, WorkerStarted 0]"]
  note pending = reply_once_after_start[OF refl socket prepare, of "[?other]"]
  from settled have "snd (cm_step ?cfg ?s (SocketMessage (Some ?m)))
      = (case worker ?s of None \<Rightarrow> [] | Some old \<Rightarrow> [WorkerStop old])
        @ [WorkerCreated (next_worker ?s), WorkerStart (next_worker ?s)]"
    by (rule conjunct1)
  then have created: "snd (cm_step ?cfg ?s (SocketMessage (Some ?m))) = [WorkerCreated 0, WorkerStart 0]"
    by (simp only: fresh idle option.case append_Nil)
  from settled have "on_started (next_worker ?s)
        (cm_history ?cfg (fst (cm_step ?cfg ?s (SocketMessage (Some ?m))))
           [?other, WorkerStarted 0, WorkerStarted 0])
      = (if WorkerStarted (next_worker ?s) \<in> set [?other, WorkerStarted 0, WorkerStarted 0]
         then [SocketSend (reply ?m)] else [])"
    by (elim conjE)
  then have once: "on_started 0
        (cm_history ?cfg (fst (cm_step ?cfg ?s (SocketMessage (Some ?m))))
           [?other, WorkerStarted 0, WorkerStarted 0])
      = [SocketSend [(''replyID'', JNumber 1)]]"
    by (simp only: fresh answer) simp
  from pending have "on_started (next_worker ?s)
        (cm_history ?cfg (fst (cm_step ?cfg ?s (SocketMessage (Some ?m)))) [?other])
      = (if WorkerStarted (next_worker ?s) \<in> set [?other]
         then [SocketSend (reply ?m)] else [])"
    by (elim conjE)
  then have none: "on_started 0
        (cm_history ?cfg (fst (cm_step ?cfg ?s (SocketMessage (Some ?m)))) [?other]) = []"
    by (simp only: fresh) simp
  from socket prepare created once none show ?thesis by (intro conjI)
qed

subsection \<open>C2\<close>

text \<open>
  Claim C2. When \<open>postMessage\<close> receives an \<open>executeApplicationScript\<close> message with a
  bundle URL and the download succeeds, exactly one message is forwarded to the child:
  the message with its \<open>url\<close> field equal to the local path returned by
  \<open>downloadAppScript\<close>, every other field unchanged and the fields in their order; and
  \<open>downloadAppScript\<close> is called exactly once, with the bundle URL whose host has been
  replaced by the configured proxy address and port.
\<close>

theorem postMessage_executeApplicationScript:
  assumes script: "field msg ''method'' = Some (JString ''executeApplicationScript'')"
      and remote: "field msg ''url'' = Some (JString u)"
      and downloaded: "downloadAppScript e srv (toPackagerUrl e wk u) (scriptImporter wk) w
                       = (Inr localPath, imp', w')"
  shows "forwarded (postMessage e srv wk msg w) = [with_field msg ''url'' (JString localPath)]
       \<and> field (with_field msg ''url'' (JString localPath)) ''url'' = Some (JString localPath)
       \<and> (\<forall>k. k \<noteq> ''url'' \<longrightarrow> field (with_field msg ''url'' (JString localPath)) k = field msg k)
       \<and> map fst (with_field msg ''url'' (JString localPath)) = map fst msg
       \<and> downloads (postMessage e srv wk msg w)
           = [url_format e ((url_parse e u)\<lparr> host := Some (packagerAddress wk @ '':'' @ toString (workerPort wk)) \<rparr>)]"
proof -
  have "forwarded (postMessage e srv wk msg w) = [with_field msg ''url'' (JString localPath)]"
    and "downloads (postMessage e srv wk msg w) = [toPackagerUrl e wk u]"
    using assms by (simp_all add: postMessage_def)
  then show ?thesis
    using remote
    by (simp add: field_with_field_same field_with_field_other keys_with_field toPackagerUrl_def)
qed


text \<open>
  The message of the test, sent to a worker of the packager at \<open>1.2.3.4:1337\<close>: the
  bundle is asked from \<open>http://1.2.3.4:1337/test-url\<close> and the child receives the path
  of the downloaded file.
\<close>

theorem postMessage_executeApplicationScript_witness:
  "field executeApplicationScript ''method'' = Some (JString ''executeApplicationScript'')
   \<and> field executeApplicationScript ''url'' = Some (JString ''http://localhost:8081/test-url'')
   \<and> fst (downloadAppScript (node_env True) (packager ''v1'' ''BODY'')
          (toPackagerUrl (node_env True) remote_worker ''http://localhost:8081/test-url'')
          (scriptImporter remote_worker) empty_world)
       = Inr ''/tmp/store/test-url''
   \<and> forwarded (postMessage (node_env True) (packager ''v1'' ''BODY'') remote_worker
          executeApplicationScript empty_world)
       = [[(''method'', JString ''executeApplicationScript''),
           (''url'', JString ''/tmp/store/test-url'')]]
   \<and> downloads (postMessage (node_env True) (packager ''v1'' ''BODY'') remote_worker
          executeApplicationScript empty_world)
       = [''http://1.2.3.4:1337/test-url'']"
proof -
  let ?e = "node_env True"
  let ?srv = "packager ''v1'' ''BODY''"
  let ?u = "''http://localhost:8081/test-url''"
  let ?call = "downloadAppScript ?e ?srv (toPackagerUrl ?e remote_worker ?u)
                 (scriptImporter remote_worker) empty_world"
  have script: "field executeApplicationScript ''method'' = Some (JString ''executeApplicationScript'')"
    by (simp add: field_def executeApplicationScript_def)
  have remote: "field executeApplicationScript ''url'' = Some (JString ?u)"
    by (simp add: field_def executeApplicationScript_def)
  have rewritten: "url_format ?e ((url_parse ?e ?u)
       \<lparr> host := Some (packagerAddress remote_worker @ '':'' @ toString (workerPort remote_worker)) \<rparr>)
      = ''http://1.2.3.4:1337/test-url''"
    by (simp add: node_defs remote_worker_def Let_def)
  have path: "fst ?call = Inr ''/tmp/store/test-url''"
    by (simp add: toPackagerUrl_def rewritten) (simp add: run_importer remote_worker_def)
  have downloaded: "?call = (Inr ''/tmp/store/test-url'', fst (snd ?call), snd (snd ?call))"
    using path by (simp add: prod_eq_iff)
  note claim = postMessage_executeApplicationScript[OF script remote downloaded]
  from claim have "forwarded (postMessage ?e ?srv remote_worker executeApplicationScript empty_world)
      = [with_field executeApplicationScript ''url'' (JString ''/tmp/store/test-url'')]"
    by (rule conjunct1)
  then have sent: "forwarded (postMessage ?e ?srv remote_worker executeApplicationScript empty_world)
      = [[(''method'', JString ''executeApplicationScript''), (''url'', JString ''/tmp/store/test-url'')]]"
    by (simp add: executeApplicationScript_def)
  from claim have "downloads (postMessage ?e ?srv remote_worker executeApplicationScript empty_world)
      = [url_format ?e ((url_parse ?e ?u)
           \<lparr> host := Some (packagerAddress remote_worker @ '':'' @ toString (workerPort remote_worker)) \<rparr>)]"
    by (elim conjE)
  then have once: "downloads (postMessage ?e ?srv remote_worker executeApplicationScript empty_world)
      = [''http://1.2.3.4:1337/test-url'']"
    by (simp only: rewritten)
  from script remote path sent once show ?thesis
    by (intro conjI)
qed

subsection \<open>C9\<close>

text \<open>
  Claim C9. When the reachability check says that the packager is not running,
  \<open>downloadDebuggerWorker\<close> fails with an error whose message contains the configured
  port and issues no HTTP request, and \<open>ConnectionManager.start()\<close> fails with such an
  error and constructs no socket. When the packager is running,
  \<open>downloadDebuggerWorker\<close> issues one request, the GET of \<open>/debuggerWorker.js\<close> at the
  packager host, and a response with status 200 makes it return the response body as
  it is.
\<close>

theorem proxy_not_running:
  "(isPackagerRunning e (getHostForPort e (packagerPort imp)) = Inr False \<longrightarrow>
      (\<exists>err pre post. fst (downloadDebuggerWorker e srv imp w) = Inl err
          \<and> message err = pre @ toString (packagerPort imp) @ post)
      \<and> requested (snd (downloadDebuggerWorker e srv imp w)) = requested w)
   \<and> (isPackagerRunning e (getHostForPort e (packagerPort imp)) = Inr True \<longrightarrow>
      requested (snd (downloadDebuggerWorker e srv imp w))
        = requested w @ [GetString (''http://'' @ getHostForPort e (packagerPort imp) @ ''/debuggerWorker.js'')]
      \<and> (\<forall>res. srv (GetString (''http://'' @ getHostForPort e (packagerPort imp) @ ''/debuggerWorker.js''))
                   = Response res \<and> statusCode res = 200
             \<longrightarrow> fst (downloadDebuggerWorker e srv imp w) = Inr (content res)))
   \<and> (\<not> has_socket s \<and> \<not> isRunning cfg (now s) \<longrightarrow>
      (\<exists>err pre post. snd (cm_step cfg s Start) = [StartFailed err]
          \<and> message err = pre @ toString (proxyPort cfg) @ post)
      \<and> (\<forall>target. SocketConstructed target \<notin> set (snd (cm_step cfg s Start))))"
proof -
  have port: "\<exists>pre post. cannotAttach p = pre @ toString p @ post" for p
    unfolding cannotAttach_def by blast
  have down: "(\<exists>err pre post. fst (downloadDebuggerWorker e srv imp w) = Inl err
          \<and> message err = pre @ toString (packagerPort imp) @ post)
      \<and> requested (snd (downloadDebuggerWorker e srv imp w)) = requested w"
    if "isPackagerRunning e (getHostForPort e (packagerPort imp)) = Inr False"
    using that port[of "packagerPort imp"] by (auto simp: downloadDebuggerWorker_def)
  have up: "requested (snd (downloadDebuggerWorker e srv imp w))
        = requested w @ [GetString (''http://'' @ getHostForPort e (packagerPort imp) @ ''/debuggerWorker.js'')]
      \<and> (\<forall>res. srv (GetString (''http://'' @ getHostForPort e (packagerPort imp) @ ''/debuggerWorker.js''))
                   = Response res \<and> statusCode res = 200
             \<longrightarrow> fst (downloadDebuggerWorker e srv imp w) = Inr (content res))"
    if "isPackagerRunning e (getHostForPort e (packagerPort imp)) = Inr True"
    using that
    by (auto simp: downloadDebuggerWorker_def request_def http_get_def Let_def
                   DEBUGGER_WORKER_FILENAME_def DEBUGGER_WORKER_FILE_BASENAME_def)
  have manager: "(\<exists>err pre post. snd (cm_step cfg s Start) = [StartFailed err]
          \<and> message err = pre @ toString (proxyPort cfg) @ post)
      \<and> (\<forall>target. SocketConstructed target \<notin> set (snd (cm_step cfg s Start)))"
    if "\<not> has_socket s" "\<not> isRunning cfg (now s)"
    using that port[of "proxyPort cfg"] by (auto simp: cm_start_def)
  from down up manager show ?thesis by blast
qed


text \<open>
  Port 8081: the error names it when the packager is down; when it is up the worker
  script is fetched from \<open>http://localhost:8081/debuggerWorker.js\<close>.
\<close>

theorem proxy_not_running_witness:
  "isPackagerRunning (node_env False)
       (getHostForPort (node_env False) (packagerPort (new_ScriptImporter 8081 ''/tmp/store''))) = Inr False
   \<and> (\<exists>err pre post.
         fst (downloadDebuggerWorker (node_env False) worker_script
                (new_ScriptImporter 8081 ''/tmp/store'') empty_world) = Inl err
         \<and> message err = pre @ ''8081'' @ post)
   \<and> requested (snd (downloadDebuggerWorker (node_env False) worker_script
                (new_ScriptImporter 8081 ''/tmp/store'') empty_world)) = []
   \<and> isPackagerRunning (node_env True)
       (getHostForPort (node_env True) (packagerPort (new_ScriptImporter 8081 ''/tmp/store''))) = Inr True
   \<and> requested (snd (downloadDebuggerWorker (node_env True) worker_script
                (new_ScriptImporter 8081 ''/tmp/store'') empty_world))
       = [GetString ''http://localhost:8081/debuggerWorker.js'']
   \<and> fst (downloadDebuggerWorker (node_env True) worker_script
                (new_ScriptImporter 8081 ''/tmp/store'') empty_world)
       = Inr ''onmessage = function () {}''
   \<and> \<not> has_socket cm_init
   \<and> \<not> isRunning (test_config False) (now cm_init)
   \<and> (\<exists>err pre post. snd (cm_step (test_config False) cm_init Start) = [StartFailed err]
         \<and> message err = pre @ ''8081'' @ post)"
proof -
  let ?imp = "new_ScriptImporter 8081 ''/tmp/store''"
  let ?ok = "\<lparr> statusCode = 200, headers = None, content = ''onmessage = function () {}'' \<rparr>"
  have p: "toString 8081 = ''8081''"
    by (simp add: toString.simps digit_def)
  have port: "packagerPort ?imp = 8081" "proxyPort (test_config False) = 8081"
    by (simp_all add: new_ScriptImporter_def test_config_def)
  have host: "getHostForPort (node_env True) 8081 = ''localhost:8081''"
    by (simp add: node_env_def p)
  have world: "requested empty_world = []"
    by (simp add: empty_world_def)
  have down: "isPackagerRunning (node_env False) (getHostForPort (node_env False) (packagerPort ?imp)) = Inr False"
    by (simp add: node_env_def)
  have up: "isPackagerRunning (node_env True) (getHostForPort (node_env True) (packagerPort ?imp)) = Inr True"
    by (simp add: node_env_def)
  have idle: "\<not> has_socket cm_init"
    by (simp add: has_socket_def cm_init_def)
  have unreachable: "\<not> isRunning (test_config False) (now cm_init)"
    by (simp add: test_config_def)
  have served: "worker_script (GetString (''http://'' @ getHostForPort (node_env True) (packagerPort ?imp)
        @ ''/debuggerWorker.js'')) = Response ?ok \<and> statusCode ?ok = 200"
    by (simp add: worker_script_def)
  note failing = proxy_not_running[of "node_env False" ?imp worker_script empty_world cm_init "test_config False",
      THEN conjunct1, rule_format, OF down]
  note fetching = proxy_not_running[of "node_env True" ?imp worker_script empty_world cm_init "test_config False",
      THEN conjunct2, THEN conjunct1, rule_format, OF up]
  note manager = proxy_not_running[of "node_env False" ?imp worker_script empty_world cm_init "test_config False",
      THEN conjunct2, THEN conjunct2, rule_format, OF conjI[OF idle unreachable]]
  from failing have c1: "\<exists>err pre post.
         fst (downloadDebuggerWorker (node_env False) worker_script ?imp empty_world) = Inl err
         \<and> message err = pre @ ''8081'' @ post"
    by (simp only: port p)
  from failing have c2: "requested (snd (downloadDebuggerWorker (node_env False) worker_script ?imp empty_world)) = []"
    by (simp only: world)
  from fetching have c3: "requested (snd (downloadDebuggerWorker (node_env True) worker_script ?imp empty_world))
       = [GetString ''http://localhost:8081/debuggerWorker.js'']"
    by (simp only: port host world) simp
  from fetching[THEN conjunct2, rule_format, OF served]
  have c4: "fst (downloadDebuggerWorker (node_env True) worker_script ?imp empty_world)
       = Inr ''onmessage = function () {}''"
    by simp
  from manager have c5: "\<exists>err pre post. snd (cm_step (test_config False) cm_init Start) = [StartFailed err]
         \<and> message err = pre @ ''8081'' @ post"
    by (simp only: port p)
  from down c1 c2 up c3 c4 idle unreachable c5 show ?thesis
    by (intro conjI)
qed


subsection \<open>C4\<close>





subsection \<open>C10\<close>

text \<open>
  Claim C10. A \<open>downloadAppScript\<close> call that resolves, with status 200 or 304 alike,
  leaves as remembered ETag the \<open>etag\<close> entry of the headers of its response (null when
  the response has no headers or no such entry). When that response is a 304 without the
  entry, the remembered ETag is null and the files are untouched, and the next call for
  the same URL sends the plain GET without \<open>If-None-Match\<close>.
\<close>

theorem downloadAppScript_remembers_etag:
  assumes call: "downloadAppScript e srv u imp w = (Inr p, imp', w')"
  shows "\<exists>res. srv (requested w' ! length (requested w)) = Response res
      \<and> (statusCode res = 200 \<or> statusCode res = 304)
      \<and> appScriptEtag imp' = (case headers res of None \<Rightarrow> None | Some hs \<Rightarrow> map_of hs ''etag'')
      \<and> (statusCode res = 304
           \<and> (case headers res of None \<Rightarrow> None | Some hs \<Rightarrow> map_of hs ''etag'') = None \<longrightarrow>
            appScriptEtag imp' = None \<and> files w' = files w \<and> written w' = written w
            \<and> (\<forall>srv2 r2 imp2 w2.
                  downloadAppScript e srv2 u imp' w' = (r2, imp2, w2) \<longrightarrow>
                    requested w2 ! length (requested w') = GetString (overriddenScriptUrlString e imp u)
                    \<and> request_headers (requested w2 ! length (requested w')) = []))"
proof -
  let ?U = "overriddenScriptUrlString e imp u"
  from downloadAppScript_resolved[OF call] obtain pn res more where
    pn: "pathname (url_parse e ?U) = Some pn"
    and p: "p = path_join e (sourcesStoragePath imp) (path_basename e pn)"
    and req: "requested w' = requested w @ etagRequest (url_parse e) ?U (sentEtag imp w p) # more"
    and res: "srv (etagRequest (url_parse e) ?U (sentEtag imp w p)) = Response res"
    and ok: "statusCode res = 200 \<or> statusCode res = 304"
    and imp': "imp' = imp\<lparr> appScriptEtag := headers_etag res \<rparr>"
    and same: "statusCode res = 304 \<longrightarrow> w' = http_get w (etagRequest (url_parse e) ?U (sentEtag imp w p))"
    by blast
  let ?tag = "case headers res of None \<Rightarrow> None | Some hs \<Rightarrow> map_of hs ''etag''"
  from imp' have remembered: "appScriptEtag imp' = ?tag"
    by (simp add: headers_etag_def)
  from req have nth: "requested w' ! length (requested w) = etagRequest (url_parse e) ?U (sentEtag imp w p)"
    by simp
  have next_call: "requested w2 ! length (requested w') = GetString ?U
        \<and> request_headers (requested w2 ! length (requested w')) = []"
    if none: "?tag = None"
      and second: "downloadAppScript e srv2 u imp' w' = (r2, imp2, w2)" for srv2 r2 imp2 w2
  proof -
    have U: "overriddenScriptUrlString e imp' u = ?U"
      using imp' by (simp add: overridden_etag_update)
    have pn': "pathname (url_parse e (overriddenScriptUrlString e imp' u)) = Some pn"
      using pn U by simp
    have tag: "sentEtag imp' w' (path_join e (sourcesStoragePath imp') (path_basename e pn)) = None"
      using remembered none by (simp add: sentEtag_def)
    from downloadAppScript_requested[OF pn' second] obtain more2 where
      "requested w2 = requested w' @ GetString ?U # more2"
      by (auto simp: tag U)
    then have "requested w2 ! length (requested w') = GetString ?U"
      by simp
    then show ?thesis by simp
  qed
  have unchanged: "statusCode res = 304 \<and> ?tag = None \<longrightarrow>
            appScriptEtag imp' = None \<and> files w' = files w \<and> written w' = written w
            \<and> (\<forall>srv2 r2 imp2 w2.
                  downloadAppScript e srv2 u imp' w' = (r2, imp2, w2) \<longrightarrow>
                    requested w2 ! length (requested w') = GetString ?U
                    \<and> request_headers (requested w2 ! length (requested w')) = [])"
  proof (intro impI, elim conjE)
    assume s: "statusCode res = 304" and none: "?tag = None"
    from same s have w': "w' = http_get w (etagRequest (url_parse e) ?U (sentEtag imp w p))"
      by simp
    have f: "files w' = files w" and wr: "written w' = written w"
      using w' by (simp_all add: http_get_def)
    from remembered none have r: "appScriptEtag imp' = None" by simp
    from next_call[OF none] have n: "\<forall>srv2 r2 imp2 w2.
                  downloadAppScript e srv2 u imp' w' = (r2, imp2, w2) \<longrightarrow>
                    requested w2 ! length (requested w') = GetString ?U
                    \<and> request_headers (requested w2 ! length (requested w')) = []"
      by blast
    from r f wr n show "appScriptEtag imp' = None \<and> files w' = files w \<and> written w' = written w
            \<and> (\<forall>srv2 r2 imp2 w2.
                  downloadAppScript e srv2 u imp' w' = (r2, imp2, w2) \<longrightarrow>
                    requested w2 ! length (requested w') = GetString ?U
                    \<and> request_headers (requested w2 ! length (requested w')) = [])"
      by (intro conjI)
  qed
  from res nth have answer: "srv (requested w' ! length (requested w)) = Response res"
    by simp
  from answer ok remembered unchanged show ?thesis
    by (intro exI[of _ res] conjI)
qed


text \<open>
  The first download remembers the ETag \<open>v1\<close> of the 200 response; a revalidation answered
  by 304 with the ETag \<open>v2\<close> remembers \<open>v2\<close>; a revalidation answered by 304 without an
  ETag forgets \<open>v1\<close>, and the following request is unconditional.
\<close>

theorem downloadAppScript_remembers_etag_witness:
  "downloadAppScript (node_env True) (packager ''v1'' ''BODY'') ''http://localhost:8081/index.bundle''
       (new_ScriptImporter 8081 ''/tmp/store'') empty_world
     = (Inr ''/tmp/store/index.bundle'', cached_importer, cached_world)
   \<and> appScriptEtag (new_ScriptImporter 8081 ''/tmp/store'') = None
   \<and> appScriptEtag cached_importer = Some ''v1''
   \<and> fst (downloadAppScript (node_env True) unchanged_new_etag ''http://localhost:8081/index.bundle''
          cached_importer cached_world) = Inr ''/tmp/store/index.bundle''
   \<and> appScriptEtag (fst (snd (downloadAppScript (node_env True) unchanged_new_etag
          ''http://localhost:8081/index.bundle'' cached_importer cached_world))) = Some ''v2''
   \<and> fst (downloadAppScript (node_env True) unchanged_no_etag ''http://localhost:8081/index.bundle''
          cached_importer cached_world) = Inr ''/tmp/store/index.bundle''
   \<and> appScriptEtag (fst (snd (downloadAppScript (node_env True) unchanged_no_etag
          ''http://localhost:8081/index.bundle'' cached_importer cached_world))) = None
   \<and> files (snd (snd (downloadAppScript (node_env True) unchanged_no_etag
          ''http://localhost:8081/index.bundle'' cached_importer cached_world))) = files cached_world
   \<and> request_headers
        (requested (snd (snd (downloadAppScript (node_env True) (packager ''v1'' ''BODY'')
            ''http://localhost:8081/index.bundle''
            (fst (snd (downloadAppScript (node_env True) unchanged_no_etag
                ''http://localhost:8081/index.bundle'' cached_importer cached_world)))
            (snd (snd (downloadAppScript (node_env True) unchanged_no_etag
                ''http://localhost:8081/index.bundle'' cached_importer cached_world))))))
         ! length (requested (snd (snd (downloadAppScript (node_env True) unchanged_no_etag
                ''http://localhost:8081/index.bundle'' cached_importer cached_world))))) = []"
proof -
  let ?e = "node_env True"
  let ?u = "''http://localhost:8081/index.bundle''"
  let ?fresh = "downloadAppScript ?e (packager ''v1'' ''BODY'') ?u (new_ScriptImporter 8081 ''/tmp/store'') empty_world"
  let ?renewed = "downloadAppScript ?e unchanged_new_etag ?u cached_importer cached_world"
  let ?first = "downloadAppScript ?e unchanged_no_etag ?u cached_importer cached_world"
  let ?imp' = "fst (snd ?first)"
  let ?w' = "snd (snd ?first)"
  let ?second = "downloadAppScript ?e (packager ''v1'' ''BODY'') ?u ?imp' ?w'"
  have fresh: "?fresh = (Inr ''/tmp/store/index.bundle'', cached_importer, cached_world)"
    by (rule first_download)
  have before: "appScriptEtag (new_ScriptImporter 8081 ''/tmp/store'') = None"
    by (simp add: new_ScriptImporter_def)
  from downloadAppScript_remembers_etag[OF fresh] obtain res200 where
    res200: "packager ''v1'' ''BODY'' (requested cached_world ! length (requested empty_world)) = Response res200"
    and remembered200: "appScriptEtag cached_importer
        = (case headers res200 of None \<Rightarrow> None | Some hs \<Rightarrow> map_of hs ''etag'')"
    by blast
  from res200 have "res200 = \<lparr> statusCode = 200, headers = Some [(''etag'', ''v1'')], content = ''BODY'' \<rparr>"
    by (simp add: packager_def cached_world_def empty_world_def)
  with remembered200 have v1: "appScriptEtag cached_importer = Some ''v1''"
    by simp
  have path2: "fst ?renewed = Inr ''/tmp/store/index.bundle''"
    by (simp add: run_importer unchanged_new_etag_def)
  have renewed: "?renewed = (Inr ''/tmp/store/index.bundle'', fst (snd ?renewed), snd (snd ?renewed))"
    using path2 by (simp add: prod_eq_iff)
  from downloadAppScript_remembers_etag[OF renewed] obtain res2 where
    res2: "unchanged_new_etag (requested (snd (snd ?renewed)) ! length (requested cached_world)) = Response res2"
    and remembered2: "appScriptEtag (fst (snd ?renewed))
        = (case headers res2 of None \<Rightarrow> None | Some hs \<Rightarrow> map_of hs ''etag'')"
    by blast
  from res2 have "res2 = \<lparr> statusCode = 304, headers = Some [(''etag'', ''v2'')], content = [] \<rparr>"
    by (simp add: unchanged_new_etag_def)
  with remembered2 have v2: "appScriptEtag (fst (snd ?renewed)) = Some ''v2''"
    by simp
  have path: "fst ?first = Inr ''/tmp/store/index.bundle''"
    by (simp add: run_importer unchanged_no_etag_def)
  have first: "?first = (Inr ''/tmp/store/index.bundle'', ?imp', ?w')"
    using path by (simp add: prod_eq_iff)
  have second: "?second = (fst ?second, fst (snd ?second), snd (snd ?second))"
    by simp
  from downloadAppScript_remembers_etag[OF first] obtain res where
    res: "unchanged_no_etag (requested ?w' ! length (requested cached_world)) = Response res"
    and again: "statusCode res = 304
           \<and> (case headers res of None \<Rightarrow> None | Some hs \<Rightarrow> map_of hs ''etag'') = None \<longrightarrow>
            appScriptEtag ?imp' = None \<and> files ?w' = files cached_world \<and> written ?w' = written cached_world
            \<and> (\<forall>srv2 r2 imp2 w2.
                  downloadAppScript ?e srv2 ?u ?imp' ?w' = (r2, imp2, w2) \<longrightarrow>
                    requested w2 ! length (requested ?w') = GetString (overriddenScriptUrlString ?e cached_importer ?u)
                    \<and> request_headers (requested w2 ! length (requested ?w')) = [])"
    by blast
  from res have "res = \<lparr> statusCode = 304, headers = Some [], content = [] \<rparr>"
    by (simp add: unchanged_no_etag_def)
  then have "statusCode res = 304
      \<and> (case headers res of None \<Rightarrow> None | Some hs \<Rightarrow> map_of hs ''etag'') = None"
    by simp
  with again have none: "appScriptEtag ?imp' = None" and same: "files ?w' = files cached_world"
    and next_call: "\<forall>srv2 r2 imp2 w2.
                  downloadAppScript ?e srv2 ?u ?imp' ?w' = (r2, imp2, w2) \<longrightarrow>
                    requested w2 ! length (requested ?w') = GetString (overriddenScriptUrlString ?e cached_importer ?u)
                    \<and> request_headers (requested w2 ! length (requested ?w')) = []"
    by blast+
  from next_call[rule_format, OF second]
  have unconditional: "request_headers (requested (snd (snd ?second)) ! length (requested ?w')) = []"
    by (rule conjunct2)
  from fresh before v1 path2 v2 path none same unconditional show ?thesis by (intro conjI)
qed

end
